theory Spec2Isabelle
  imports Main "HOL-Library.List_Lexorder" "HOL-Library.Char_ord"
begin

section \<open>Data model\<close>

text \<open>
  The keybindings editing service of \<^verbatim>\<open>keybindingEditing.ts\<close> edits a JSON document that
  holds an array of user keybinding entries. The service itself is embedded function by function;
  the modules it imports (the JSON parser, the structural editor \<^verbatim>\<open>setProperty\<close>, the
  context-key expressions, the text model, the user-data store) are collaborators of the
  embedding and are collected in the record \<open>Collaborators\<close>.
\<close>

text \<open>
  Modelled from the spec: the values \<^verbatim>\<open>json.parse\<close> returns (module
  \<^verbatim>\<open>vs/base/common/json\<close>). Numbers are kept as integers; \<open>undefined\<close> is \<open>None\<close>
  of \<open>json option\<close>.
\<close>

datatype json =
  JNull
| JBool bool
| JNum int
| JStr string
| JArr "json list"
| JObj "(string \<times> json) list"

text \<open>\<^verbatim>\<open>IUserFriendlyKeybinding\<close>: one entry of the user's document, at its declared type.\<close>

record IUserFriendlyKeybinding =
  key :: string
  command :: string
  "when" :: "string option"

text \<open>
  \<^verbatim>\<open>ResolvedKeybindingItem\<close>, the fields the service reads. \<open>resolvedKeybinding\<close> is
  \<open>None\<close> for \<open>null\<close>, and otherwise holds what \<^verbatim>\<open>getUserSettingsLabel()\<close> returns
  (\<open>string | null\<close>). \<open>item_command\<close> is \<open>string | null\<close>, \<open>item_when\<close> is a context-key
  expression or \<open>null\<close>; the type \<open>'e\<close> of expressions belongs to the collaborators.
\<close>

record 'e ResolvedKeybindingItem =
  isDefault :: bool
  resolvedKeybinding :: "string option option"
  item_command :: "string option"
  item_when :: "'e option"

text \<open>\<^verbatim>\<open>Edit\<close> of the JSON formatter: replace \<open>edit_length\<close> characters at \<open>offset\<close>.\<close>

record Edit =
  offset :: nat
  edit_length :: nat
  content :: string

record FormattingOptions =
  tabSize :: nat
  insertSpaces :: bool
  eol :: string

datatype Segment = Index int | Property string

text \<open>
  Modelled from the spec: the live text buffer (\<^verbatim>\<open>ITextModel\<close>) as a plain string together
  with its line terminator and indentation options.
\<close>

record ITextModel =
  getValue :: string
  getEOL :: string
  modelTabSize :: nat
  modelInsertSpaces :: bool

text \<open>
  The ways a promise of the service is rejected: the store's read or write fails, the
  validation refuses the document, the structural editor throws (\<open>EditError\<close>), or a
  property of \<open>undefined\<close> or \<open>null\<close> is read (\<open>TypeError\<close>).
\<close>

datatype error = ReadError | WriteError | ParseError | InvalidShapeError | EditError | TypeError

text \<open>
  The collaborators. \<open>json_parse\<close> returns the parsed value and the number of parse errors;
  \<open>setProperty\<close> returns \<open>None\<close> where the structural editor throws;
  \<open>deserialize_nonstring\<close> is what \<^verbatim>\<open>ContextKeyExpr.deserialize\<close> does when it is handed a
  parsed value that is not a string; \<open>userData_read\<close> and
  \<open>userData_write\<close> act on the content stored under the keybindings key, and a write
  returns its error, if any, together with the content the store is left with.
\<close>

record 'e Collaborators =
  json_parse :: "string \<Rightarrow> json option \<times> nat"
  setProperty :: "string \<Rightarrow> Segment list \<Rightarrow> json option \<Rightarrow> FormattingOptions \<Rightarrow> Edit list option"
  deserialize :: "string \<Rightarrow> 'e option"
  deserialize_nonstring :: "json \<Rightarrow> error + 'e option"
  serialize :: "'e \<Rightarrow> string"
  userData_read :: "string option \<Rightarrow> error + string option"
  userData_write :: "string \<Rightarrow> string option \<Rightarrow> error option \<times> string option"
  bufferEOL :: string
  bufferTabSize :: nat
  bufferInsertSpaces :: bool

text \<open>
  The state outside one operation: the stored document, the number of calls of the store's
  \<open>write\<close> so far, and the number of live models registered in the model service.
\<close>

record World =
  stored :: "string option"
  writeCalls :: nat
  liveModels :: nat

section \<open>JavaScript values\<close>

text \<open>Truthiness of a parsed value (\<open>if (parsed.result)\<close>) and \<^verbatim>\<open>isArray\<close>.\<close>

fun truthy :: "json option \<Rightarrow> bool" where
  "truthy None = False"
| "truthy (Some JNull) = False"
| "truthy (Some (JBool b)) = b"
| "truthy (Some (JNum n)) = (n \<noteq> 0)"
| "truthy (Some (JStr s)) = (s \<noteq> [])"
| "truthy (Some (JArr xs)) = True"
| "truthy (Some (JObj ps)) = True"

fun isArray :: "json option \<Rightarrow> bool" where
  "isArray (Some (JArr xs)) = True"
| "isArray _ = False"

text \<open>Truthiness of an optional string: \<open>undefined\<close> and the empty string are falsy.\<close>

fun truthy_string :: "string option \<Rightarrow> bool" where
  "truthy_string None = False"
| "truthy_string (Some s) = (s \<noteq> [])"

text \<open>
  An element of the parsed array at the declared type of an entry. \<open>keybinding_json\<close> says
  that an element has this type: an object whose \<open>key\<close> and \<open>command\<close> are strings and whose
  \<open>when\<close> is a string or missing; \<open>entry_of\<close> reads such an element. A property of an
  object is looked up with the last duplicate winning. The service does not go through
  \<open>entry_of\<close>: it runs on the parsed values (see below), and on elements of the declared
  type the two agree; the claims below use \<open>entry_of\<close> only on elements of this type.
  \<open>entries_of\<close> reads a parsed array of such elements.
\<close>

definition property :: "(string \<times> json) list \<Rightarrow> string \<Rightarrow> json option" where
  "property ps name = map_of (rev ps) name"

fun string_of :: "json option \<Rightarrow> string" where
  "string_of (Some (JStr s)) = s"
| "string_of _ = []"

fun optional_string_of :: "json option \<Rightarrow> string option" where
  "optional_string_of (Some (JStr s)) = Some s"
| "optional_string_of _ = None"

fun entry_of :: "json \<Rightarrow> IUserFriendlyKeybinding" where
  "entry_of (JObj ps) =
     \<lparr>key = string_of (property ps ''key''),
      command = string_of (property ps ''command''),
      when = optional_string_of (property ps ''when'')\<rparr>"
| "entry_of _ = \<lparr>key = [], command = [], when = None\<rparr>"

fun entries_of :: "json option \<Rightarrow> IUserFriendlyKeybinding list option" where
  "entries_of (Some (JArr xs)) = Some (map entry_of xs)"
| "entries_of None = None"
| "entries_of (Some JNull) = None"
| "entries_of (Some v) = Some []"

fun is_string :: "json option \<Rightarrow> bool" where
  "is_string (Some (JStr s)) = True"
| "is_string _ = False"

fun keybinding_json :: "json \<Rightarrow> bool" where
  "keybinding_json (JObj ps) =
     (is_string (property ps ''key'') \<and> is_string (property ps ''command'') \<and>
      (property ps ''when'' = None \<or> is_string (property ps ''when'')))"
| "keybinding_json _ = False"

section \<open>The entry matcher\<close>

text \<open>
  \<^verbatim>\<open>findUserKeybindingEntryIndex\<close>: the loop over \<open>index\<close>, with the entries still to visit.
\<close>

fun findUserKeybindingEntryIndex_loop ::
  "'e Collaborators \<Rightarrow> 'e ResolvedKeybindingItem \<Rightarrow> IUserFriendlyKeybinding list \<Rightarrow> nat \<Rightarrow> int" where
  "findUserKeybindingEntryIndex_loop env keybindingItem [] index = - 1"
| "findUserKeybindingEntryIndex_loop env keybindingItem (keybinding # rest) index =
     (if Some (command keybinding) = item_command keybindingItem then
        (if \<not> truthy_string (when keybinding) \<and> item_when keybindingItem = None then int index
         else if truthy_string (when keybinding) \<and> item_when keybindingItem \<noteq> None then
           (case deserialize env (the (when keybinding)) of
              Some contextKeyExpr \<Rightarrow>
                (if serialize env contextKeyExpr = serialize env (the (item_when keybindingItem))
                 then int index
                 else findUserKeybindingEntryIndex_loop env keybindingItem rest (Suc index))
            | None \<Rightarrow> findUserKeybindingEntryIndex_loop env keybindingItem rest (Suc index))
         else findUserKeybindingEntryIndex_loop env keybindingItem rest (Suc index))
      else findUserKeybindingEntryIndex_loop env keybindingItem rest (Suc index))"

definition findUserKeybindingEntryIndex ::
  "'e Collaborators \<Rightarrow> 'e ResolvedKeybindingItem \<Rightarrow> IUserFriendlyKeybinding list \<Rightarrow> int" where
  "findUserKeybindingEntryIndex env keybindingItem userKeybindingEntries =
     findUserKeybindingEntryIndex_loop env keybindingItem userKeybindingEntries 0"

text \<open>
  The template literal \<^verbatim>\<open>`-${keybindingItem.command}`\<close>: a \<open>null\<close> command prints as
  \<open>null\<close>.
\<close>

definition negated_command :: "string option \<Rightarrow> string" where
  "negated_command c = CHR ''-'' # (case c of None \<Rightarrow> ''null'' | Some s \<Rightarrow> s)"

fun findUnassignedDefaultKeybindingEntryIndex_loop ::
  "'e ResolvedKeybindingItem \<Rightarrow> IUserFriendlyKeybinding list \<Rightarrow> nat \<Rightarrow> nat list" where
  "findUnassignedDefaultKeybindingEntryIndex_loop keybindingItem [] index = []"
| "findUnassignedDefaultKeybindingEntryIndex_loop keybindingItem (keybinding # rest) index =
     (if command keybinding = negated_command (item_command keybindingItem)
      then index # findUnassignedDefaultKeybindingEntryIndex_loop keybindingItem rest (Suc index)
      else findUnassignedDefaultKeybindingEntryIndex_loop keybindingItem rest (Suc index))"

definition findUnassignedDefaultKeybindingEntryIndex ::
  "'e ResolvedKeybindingItem \<Rightarrow> IUserFriendlyKeybinding list \<Rightarrow> nat list" where
  "findUnassignedDefaultKeybindingEntryIndex keybindingItem userKeybindingEntries =
     findUnassignedDefaultKeybindingEntryIndex_loop keybindingItem userKeybindingEntries 0"

text \<open>
  The matching relation in the spec's words: the commands are equal and either both
  \<open>when\<close>s are absent, or both are present and the entry's \<open>when\<close> canonicalizes to an
  expression that serializes as the target's does. A \<open>when\<close> is present when it is a
  non-empty string (the code tests truthiness).
\<close>

definition when_present :: "IUserFriendlyKeybinding \<Rightarrow> bool" where
  "when_present keybinding = (case when keybinding of None \<Rightarrow> False | Some s \<Rightarrow> s \<noteq> [])"

definition when_matches ::
  "'e Collaborators \<Rightarrow> 'e ResolvedKeybindingItem \<Rightarrow> IUserFriendlyKeybinding \<Rightarrow> bool" where
  "when_matches env keybindingItem keybinding =
     (case item_when keybindingItem of
        None \<Rightarrow> \<not> when_present keybinding
      | Some target \<Rightarrow>
          when_present keybinding \<and>
          (case deserialize env (the (when keybinding)) of
             None \<Rightarrow> False
           | Some canonical \<Rightarrow> serialize env canonical = serialize env target))"

definition entry_matches ::
  "'e Collaborators \<Rightarrow> 'e ResolvedKeybindingItem \<Rightarrow> IUserFriendlyKeybinding \<Rightarrow> bool" where
  "entry_matches env keybindingItem keybinding =
     (item_command keybindingItem = Some (command keybinding) \<and>
      when_matches env keybindingItem keybinding)"

section \<open>Parsed values as JavaScript reads them\<close>

text \<open>
  The cast \<^verbatim>\<open><IUserFriendlyKeybinding[]>json.parse(...)\<close> checks nothing: the loops of the
  service run on whatever was parsed. \<open>elements_of\<close> is the value as the indexed list the
  loops go through. Reading \<open>length\<close> of \<open>undefined\<close> or \<open>null\<close> throws (\<open>None\<close>); a
  boolean and a number have no \<open>length\<close>, so the loops do not run; a string is indexed by
  its characters. An object is read as having no elements: it has none unless it holds a
  property \<open>length\<close>, and \<^verbatim>\<open>resolveAndValidate\<close> refuses a document whose value is an
  object before any loop runs.
  \<open>element_property\<close> reads \<open>command\<close> or \<open>when\<close> of an element: of \<open>null\<close> it throws,
  of an object it is the property (\<open>undefined\<close> when there is none), of any other value it is
  \<open>undefined\<close>. \<open>strict_equals\<close> is \<open>===\<close> between such a property and a \<open>string | null\<close>.
\<close>

fun elements_of :: "json option \<Rightarrow> json list option" where
  "elements_of (Some (JArr xs)) = Some xs"
| "elements_of None = None"
| "elements_of (Some JNull) = None"
| "elements_of (Some (JBool b)) = Some []"
| "elements_of (Some (JNum n)) = Some []"
| "elements_of (Some (JStr s)) = Some (map (\<lambda>c. JStr [c]) s)"
| "elements_of (Some (JObj ps)) = Some []"

fun element_property :: "json \<Rightarrow> string \<Rightarrow> error + json option" where
  "element_property JNull name = Inl TypeError"
| "element_property (JObj ps) name = Inr (property ps name)"
| "element_property v name = Inr None"

fun strict_equals :: "json option \<Rightarrow> string option \<Rightarrow> bool" where
  "strict_equals (Some (JStr s)) (Some t) = (s = t)"
| "strict_equals (Some JNull) None = True"
| "strict_equals v t = False"

text \<open>
  \<^verbatim>\<open>ContextKeyExpr.deserialize(keybinding.when)\<close> on a truthy \<open>when\<close>: a string goes to the
  canonicalizer; what the canonicalizer does with a value that is not a string is the
  collaborator's \<open>deserialize_nonstring\<close>.
\<close>

definition deserialize_value :: "'e Collaborators \<Rightarrow> json \<Rightarrow> error + 'e option" where
  "deserialize_value env v =
     (case v of JStr s \<Rightarrow> Inr (deserialize env s) | _ \<Rightarrow> deserialize_nonstring env v)"

text \<open>
  \<^verbatim>\<open>findUserKeybindingEntryIndex\<close> as it runs on the parsed elements. On elements of the
  declared type it is \<open>findUserKeybindingEntryIndex\<close> above (lemma
  \<open>findUserKeybindingEntryIndex_parsed_typed\<close>).
\<close>

fun findUserKeybindingEntryIndex_parsed_loop ::
  "'e Collaborators \<Rightarrow> 'e ResolvedKeybindingItem \<Rightarrow> json list \<Rightarrow> nat \<Rightarrow> error + int" where
  "findUserKeybindingEntryIndex_parsed_loop env keybindingItem [] index = Inr (- 1)"
| "findUserKeybindingEntryIndex_parsed_loop env keybindingItem (keybinding # rest) index =
     (case element_property keybinding ''command'' of
        Inl e \<Rightarrow> Inl e
      | Inr commandValue \<Rightarrow>
          (if strict_equals commandValue (item_command keybindingItem) then
             (case element_property keybinding ''when'' of
                Inl e \<Rightarrow> Inl e
              | Inr whenValue \<Rightarrow>
                  (if \<not> truthy whenValue \<and> item_when keybindingItem = None then Inr (int index)
                   else if truthy whenValue \<and> item_when keybindingItem \<noteq> None then
                     (case deserialize_value env (the whenValue) of
                        Inl e \<Rightarrow> Inl e
                      | Inr (Some contextKeyExpr) \<Rightarrow>
                          (if serialize env contextKeyExpr =
                              serialize env (the (item_when keybindingItem))
                           then Inr (int index)
                           else findUserKeybindingEntryIndex_parsed_loop env keybindingItem rest
                                  (Suc index))
                      | Inr None \<Rightarrow>
                          findUserKeybindingEntryIndex_parsed_loop env keybindingItem rest (Suc index))
                   else findUserKeybindingEntryIndex_parsed_loop env keybindingItem rest (Suc index)))
           else findUserKeybindingEntryIndex_parsed_loop env keybindingItem rest (Suc index)))"

definition findUserKeybindingEntryIndex_parsed ::
  "'e Collaborators \<Rightarrow> 'e ResolvedKeybindingItem \<Rightarrow> json list \<Rightarrow> error + int" where
  "findUserKeybindingEntryIndex_parsed env keybindingItem userKeybindingEntries =
     findUserKeybindingEntryIndex_parsed_loop env keybindingItem userKeybindingEntries 0"

text \<open>
  \<^verbatim>\<open>findUnassignedDefaultKeybindingEntryIndex\<close> as it runs on the parsed elements; it reads
  \<open>command\<close> of every element.
\<close>

fun findUnassignedDefaultKeybindingEntryIndex_parsed_loop ::
  "'e ResolvedKeybindingItem \<Rightarrow> json list \<Rightarrow> nat \<Rightarrow> error + nat list" where
  "findUnassignedDefaultKeybindingEntryIndex_parsed_loop keybindingItem [] index = Inr []"
| "findUnassignedDefaultKeybindingEntryIndex_parsed_loop keybindingItem (keybinding # rest) index =
     (case element_property keybinding ''command'' of
        Inl e \<Rightarrow> Inl e
      | Inr commandValue \<Rightarrow>
          (case findUnassignedDefaultKeybindingEntryIndex_parsed_loop keybindingItem rest (Suc index) of
             Inl e \<Rightarrow> Inl e
           | Inr indices \<Rightarrow>
               Inr (if strict_equals commandValue
                         (Some (negated_command (item_command keybindingItem)))
                    then index # indices else indices)))"

definition findUnassignedDefaultKeybindingEntryIndex_parsed ::
  "'e ResolvedKeybindingItem \<Rightarrow> json list \<Rightarrow> error + nat list" where
  "findUnassignedDefaultKeybindingEntryIndex_parsed keybindingItem userKeybindingEntries =
     findUnassignedDefaultKeybindingEntryIndex_parsed_loop keybindingItem userKeybindingEntries 0"

section \<open>The buffer applier and the patches\<close>

text \<open>
  \<^verbatim>\<open>asObject\<close>: the object literal that is handed to the structural editor. The properties
  \<open>command\<close> and \<open>when\<close> are written only when their argument is truthy.
\<close>

definition asObject :: "string \<Rightarrow> string option \<Rightarrow> string option \<Rightarrow> bool \<Rightarrow> json" where
  "asObject keyLabel commandId whenText negate =
     JObj ([(''key'', JStr keyLabel)] @
           (if truthy_string commandId
            then [(''command'', JStr (if negate then CHR ''-'' # the commandId else the commandId))]
            else []) @
           (if truthy_string whenText then [(''when'', JStr (the whenText))] else []))"

text \<open>
  \<^verbatim>\<open>applyEditsToBuffer\<close>: the characters from \<open>offset\<close> to \<open>offset + length\<close> are replaced by
  the edit's content (an insertion when the range is empty). \<^verbatim>\<open>getPositionAt\<close> clamps an
  offset to the end of the text, as \<open>take\<close> and \<open>drop\<close> do.
\<close>

definition applyEditsToBuffer :: "Edit \<Rightarrow> ITextModel \<Rightarrow> ITextModel" where
  "applyEditsToBuffer edit model =
     model\<lparr>getValue :=
       take (offset edit) (getValue model) @ content edit @
       drop (offset edit + edit_length edit) (getValue model)\<rparr>"

text \<open>The options \<^verbatim>\<open>{ tabSize, insertSpaces, eol }\<close> every patch is built with.\<close>

definition formattingOptions :: "ITextModel \<Rightarrow> FormattingOptions" where
  "formattingOptions model =
     \<lparr>tabSize = modelTabSize model, insertSpaces = modelInsertSpaces model, eol = getEOL model\<rparr>"

text \<open>
  \<^verbatim>\<open>setProperty(...)[0]\<close> handed to \<^verbatim>\<open>applyEditsToBuffer\<close>: the editor may throw, and
  reading \<open>offset\<close> of the first element of an empty list is a \<open>TypeError\<close>.
\<close>

definition first_edit :: "Edit list option \<Rightarrow> error + Edit" where
  "first_edit r = (case r of None \<Rightarrow> Inl EditError | Some [] \<Rightarrow> Inl TypeError | Some (edit # rest) \<Rightarrow> Inr edit)"

text \<open>\<^verbatim>\<open>json.parse(model.getValue())\<close>, as the list the loops index.\<close>

definition entries_in :: "'e Collaborators \<Rightarrow> ITextModel \<Rightarrow> json list option" where
  "entries_in env model = elements_of (fst (json_parse env (getValue model)))"

definition updateKeybinding ::
  "'e Collaborators \<Rightarrow> 'e ResolvedKeybindingItem \<Rightarrow> string \<Rightarrow> string option \<Rightarrow> ITextModel \<Rightarrow> int
     \<Rightarrow> error + ITextModel" where
  "updateKeybinding env keybindingItem newKey whenText model userKeybindingEntryIndex =
     (if userKeybindingEntryIndex \<noteq> - 1 then
        (case first_edit (setProperty env (getValue model)
                 [Index userKeybindingEntryIndex, Property ''key''] (Some (JStr newKey))
                 (formattingOptions model)) of
           Inl e \<Rightarrow> Inl e
         | Inr edit \<Rightarrow>
             (let model1 = applyEditsToBuffer edit model in
              case setProperty env (getValue model1)
                     [Index userKeybindingEntryIndex, Property ''when''] (map_option JStr whenText)
                     (formattingOptions model1) of
                None \<Rightarrow> Inl EditError
              | Some edits \<Rightarrow>
                  (if length edits > 0 then Inr (applyEditsToBuffer (hd edits) model1)
                   else Inr model1)))
      else
        (case first_edit (setProperty env (getValue model) [Index (- 1)]
                 (Some (asObject newKey (item_command keybindingItem) whenText False))
                 (formattingOptions model)) of
           Inl e \<Rightarrow> Inl e
         | Inr edit \<Rightarrow> Inr (applyEditsToBuffer edit model)))"

definition removeUserKeybinding ::
  "'e Collaborators \<Rightarrow> 'e ResolvedKeybindingItem \<Rightarrow> ITextModel \<Rightarrow> error + ITextModel" where
  "removeUserKeybinding env keybindingItem model =
     (case entries_in env model of
        None \<Rightarrow> Inl TypeError
      | Some userKeybindingEntries \<Rightarrow>
          (case findUserKeybindingEntryIndex_parsed env keybindingItem userKeybindingEntries of
             Inl e \<Rightarrow> Inl e
           | Inr userKeybindingEntryIndex \<Rightarrow>
               (if userKeybindingEntryIndex \<noteq> - 1 then
                  (case first_edit (setProperty env (getValue model)
                           [Index userKeybindingEntryIndex] None (formattingOptions model)) of
                     Inl e \<Rightarrow> Inl e
                   | Inr edit \<Rightarrow> Inr (applyEditsToBuffer edit model))
                else Inr model)))"

text \<open>The entry \<^verbatim>\<open>removeDefaultKeybinding\<close> appends for the label \<open>keyLabel\<close>.\<close>

definition negation_entry :: "'e Collaborators \<Rightarrow> 'e ResolvedKeybindingItem \<Rightarrow> string \<Rightarrow> json" where
  "negation_entry env keybindingItem keyLabel =
     asObject keyLabel (item_command keybindingItem)
       (map_option (serialize env) (item_when keybindingItem)) True"

definition removeDefaultKeybinding ::
  "'e Collaborators \<Rightarrow> 'e ResolvedKeybindingItem \<Rightarrow> ITextModel \<Rightarrow> error + ITextModel" where
  "removeDefaultKeybinding env keybindingItem model =
     (let keyLabel = (case resolvedKeybinding keybindingItem of
                        Some userSettingsLabel \<Rightarrow> userSettingsLabel
                      | None \<Rightarrow> None)
      in if truthy_string keyLabel then
           (case first_edit (setProperty env (getValue model) [Index (- 1)]
                    (Some (negation_entry env keybindingItem (the keyLabel)))
                    (formattingOptions model)) of
              Inl e \<Rightarrow> Inl e
            | Inr edit \<Rightarrow> Inr (applyEditsToBuffer edit model))
         else Inr model)"

text \<open>The loop of \<^verbatim>\<open>removeUnassignedDefaultKeybinding\<close> over the reversed indices.\<close>

fun removeUnassignedDefaultKeybinding_loop ::
  "'e Collaborators \<Rightarrow> ITextModel \<Rightarrow> nat list \<Rightarrow> error + ITextModel" where
  "removeUnassignedDefaultKeybinding_loop env model [] = Inr model"
| "removeUnassignedDefaultKeybinding_loop env model (index # rest) =
     (case first_edit (setProperty env (getValue model) [Index (int index)] None
              (formattingOptions model)) of
        Inl e \<Rightarrow> Inl e
      | Inr edit \<Rightarrow> removeUnassignedDefaultKeybinding_loop env (applyEditsToBuffer edit model) rest)"

definition removeUnassignedDefaultKeybinding ::
  "'e Collaborators \<Rightarrow> 'e ResolvedKeybindingItem \<Rightarrow> ITextModel \<Rightarrow> error + ITextModel" where
  "removeUnassignedDefaultKeybinding env keybindingItem model =
     (case entries_in env model of
        None \<Rightarrow> Inl TypeError
      | Some userKeybindingEntries \<Rightarrow>
          (case findUnassignedDefaultKeybindingEntryIndex_parsed keybindingItem
                  userKeybindingEntries of
             Inl e \<Rightarrow> Inl e
           | Inr found \<Rightarrow> removeUnassignedDefaultKeybinding_loop env model (rev found)))"

section \<open>Resolving, validating and saving\<close>

text \<open>
  \<^verbatim>\<open>resolveModel\<close>: \<^verbatim>\<open>(await read(...)) || '[]'\<close> replaces an absent and an empty content by
  \<open>[]\<close>; the model service then registers a new model. Modelled from the spec: the buffer
  service's \<^verbatim>\<open>createModel\<close> gives a buffer with the text it is handed and does not fail.
\<close>

definition createModel :: "'e Collaborators \<Rightarrow> string \<Rightarrow> ITextModel" where
  "createModel env text =
     \<lparr>getValue = text, getEOL = bufferEOL env, modelTabSize = bufferTabSize env,
      modelInsertSpaces = bufferInsertSpaces env\<rparr>"

definition resolveModel :: "'e Collaborators \<Rightarrow> World \<Rightarrow> (error + ITextModel) \<times> World" where
  "resolveModel env w =
     (case userData_read env (stored w) of
        Inl e \<Rightarrow> (Inl e, w)
      | Inr r \<Rightarrow>
          (let text = (if truthy_string r then the r else ''[]'')
           in (Inr (createModel env text), w\<lparr>liveModels := Suc (liveModels w)\<rparr>)))"

text \<open>\<^verbatim>\<open>localize\<close> returns its default message.\<close>

definition getEmptyContent :: "string \<Rightarrow> string" where
  "getEmptyContent EOL =
     ''// '' @ ''Place your key bindings in this file to override the defaults'' @ EOL @ ''[]''"

text \<open>\<^verbatim>\<open>parse\<close>: the parsed value (\<open>result\<close>) and the number of parse errors.\<close>

definition parse :: "'e Collaborators \<Rightarrow> ITextModel \<Rightarrow> json option \<times> nat" where
  "parse env model = json_parse env (getValue model)"

definition resolveAndValidate :: "'e Collaborators \<Rightarrow> World \<Rightarrow> (error + ITextModel) \<times> World" where
  "resolveAndValidate env w =
     (case resolveModel env w of
        (Inl e, w1) \<Rightarrow> (Inl e, w1)
      | (Inr model, w1) \<Rightarrow>
          (let EOL = getEOL model in
           if getValue model \<noteq> [] then
             (let parsed = parse env model in
              if snd parsed \<noteq> 0 then (Inl ParseError, w1)
              else if truthy (fst parsed) then
                (if \<not> isArray (fst parsed) then (Inl InvalidShapeError, w1)
                 else (Inr model, w1))
              else
                (let text = EOL @ ''[]'' in
                 (Inr (applyEditsToBuffer
                        \<lparr>offset = length (getValue model), edit_length = length text, content = text\<rparr>
                        model), w1)))
           else
             (let text = getEmptyContent EOL in
              (Inr (applyEditsToBuffer \<lparr>offset = 0, edit_length = length text, content = text\<rparr> model),
               w1))))"

text \<open>
  \<^verbatim>\<open>save\<close>: the write is awaited first; the model is disposed and destroyed in the
  statements after it, which a rejected write does not reach.
\<close>

definition save :: "'e Collaborators \<Rightarrow> ITextModel \<Rightarrow> World \<Rightarrow> (error + unit) \<times> World" where
  "save env model w =
     (case userData_write env (getValue model) (stored w) of
        (Some e, s) \<Rightarrow> (Inl e, w\<lparr>stored := s, writeCalls := Suc (writeCalls w)\<rparr>)
      | (None, s) \<Rightarrow>
          (Inr (), w\<lparr>stored := s, writeCalls := Suc (writeCalls w), liveModels := liveModels w - 1\<rparr>))"

section \<open>The three operations\<close>

text \<open>
  Each operation is \<^verbatim>\<open>resolveAndValidate().then(model => { ...; return this.save(model); })\<close>.
  The statements of a callback before its \<^verbatim>\<open>return this.save(model)\<close> patch the model in
  memory; an exception in them rejects the promise before \<^verbatim>\<open>save\<close> is called.
\<close>

definition doEditKeybinding_patches ::
  "'e Collaborators \<Rightarrow> 'e ResolvedKeybindingItem \<Rightarrow> string \<Rightarrow> string option \<Rightarrow> ITextModel
     \<Rightarrow> error + ITextModel" where
  "doEditKeybinding_patches env keybindingItem newKey whenText model =
     (case entries_in env model of
        None \<Rightarrow> Inl TypeError
      | Some userKeybindingEntries \<Rightarrow>
          (case findUserKeybindingEntryIndex_parsed env keybindingItem userKeybindingEntries of
             Inl e \<Rightarrow> Inl e
           | Inr userKeybindingEntryIndex \<Rightarrow>
               (case updateKeybinding env keybindingItem newKey whenText model
                       userKeybindingEntryIndex of
                  Inl e \<Rightarrow> Inl e
                | Inr model1 \<Rightarrow>
                    (if isDefault keybindingItem \<and> resolvedKeybinding keybindingItem \<noteq> None
                     then removeDefaultKeybinding env keybindingItem model1
                     else Inr model1))))"

definition doRemoveKeybinding_patches ::
  "'e Collaborators \<Rightarrow> 'e ResolvedKeybindingItem \<Rightarrow> ITextModel \<Rightarrow> error + ITextModel" where
  "doRemoveKeybinding_patches env keybindingItem model =
     (if isDefault keybindingItem then removeDefaultKeybinding env keybindingItem model
      else removeUserKeybinding env keybindingItem model)"

definition doResetKeybinding_patches ::
  "'e Collaborators \<Rightarrow> 'e ResolvedKeybindingItem \<Rightarrow> ITextModel \<Rightarrow> error + ITextModel" where
  "doResetKeybinding_patches env keybindingItem model =
     (if \<not> isDefault keybindingItem then
        (case removeUserKeybinding env keybindingItem model of
           Inl e \<Rightarrow> Inl e
         | Inr model1 \<Rightarrow> removeUnassignedDefaultKeybinding env keybindingItem model1)
      else Inr model)"

definition resolve_patch_save ::
  "'e Collaborators \<Rightarrow> (ITextModel \<Rightarrow> error + ITextModel) \<Rightarrow> World \<Rightarrow> (error + unit) \<times> World" where
  "resolve_patch_save env patches w =
     (case resolveAndValidate env w of
        (Inl e, w1) \<Rightarrow> (Inl e, w1)
      | (Inr model, w1) \<Rightarrow>
          (case patches model of
             Inl e \<Rightarrow> (Inl e, w1)
           | Inr model1 \<Rightarrow> save env model1 w1))"

definition doEditKeybinding ::
  "'e Collaborators \<Rightarrow> 'e ResolvedKeybindingItem \<Rightarrow> string \<Rightarrow> string option \<Rightarrow> World
     \<Rightarrow> (error + unit) \<times> World" where
  "doEditKeybinding env keybindingItem newKey whenText =
     resolve_patch_save env (doEditKeybinding_patches env keybindingItem newKey whenText)"

definition doRemoveKeybinding ::
  "'e Collaborators \<Rightarrow> 'e ResolvedKeybindingItem \<Rightarrow> World \<Rightarrow> (error + unit) \<times> World" where
  "doRemoveKeybinding env keybindingItem =
     resolve_patch_save env (doRemoveKeybinding_patches env keybindingItem)"

definition doResetKeybinding ::
  "'e Collaborators \<Rightarrow> 'e ResolvedKeybindingItem \<Rightarrow> World \<Rightarrow> (error + unit) \<times> World" where
  "doResetKeybinding env keybindingItem =
     resolve_patch_save env (doResetKeybinding_patches env keybindingItem)"

text \<open>
  The requests of the public interface (\<^verbatim>\<open>editKeybinding\<close>, \<^verbatim>\<open>removeKeybinding\<close>,
  \<^verbatim>\<open>resetKeybinding\<close>) and the work the queue runs for each of them.
\<close>

datatype 'e Request =
  EditKeybinding "'e ResolvedKeybindingItem" string "string option"
| RemoveKeybinding "'e ResolvedKeybindingItem"
| ResetKeybinding "'e ResolvedKeybindingItem"

fun patches_of :: "'e Collaborators \<Rightarrow> 'e Request \<Rightarrow> ITextModel \<Rightarrow> error + ITextModel" where
  "patches_of env (EditKeybinding keybindingItem newKey whenText) =
     doEditKeybinding_patches env keybindingItem newKey whenText"
| "patches_of env (RemoveKeybinding keybindingItem) = doRemoveKeybinding_patches env keybindingItem"
| "patches_of env (ResetKeybinding keybindingItem) = doResetKeybinding_patches env keybindingItem"

fun perform :: "'e Collaborators \<Rightarrow> 'e Request \<Rightarrow> World \<Rightarrow> (error + unit) \<times> World" where
  "perform env (EditKeybinding keybindingItem newKey whenText) =
     doEditKeybinding env keybindingItem newKey whenText"
| "perform env (RemoveKeybinding keybindingItem) = doRemoveKeybinding env keybindingItem"
| "perform env (ResetKeybinding keybindingItem) = doResetKeybinding env keybindingItem"

section \<open>The contract of the patch builder\<close>

text \<open>
  Modelled from the spec: what the structural editor \<^verbatim>\<open>setProperty\<close> of
  \<^verbatim>\<open>vs/base/common/jsonEdit\<close> promises (the spec's patch builder), stated for one buffer
  and checked by evaluation: the first edit of an append (path \<open>[-1]\<close>) yields a text whose
  array is the old array followed by the new element; the first edit of a removal (path
  \<open>[i]\<close>, value \<open>undefined\<close>) yields the old array without element \<open>i\<close>.
\<close>

definition elements :: "'e Collaborators \<Rightarrow> ITextModel \<Rightarrow> json list option" where
  "elements env model =
     (case fst (json_parse env (getValue model)) of Some (JArr xs) \<Rightarrow> Some xs | _ \<Rightarrow> None)"

definition remove_nth :: "nat \<Rightarrow> 'a list \<Rightarrow> 'a list" where
  "remove_nth i xs = take i xs @ drop (Suc i) xs"

definition appends_element :: "'e Collaborators \<Rightarrow> ITextModel \<Rightarrow> json \<Rightarrow> bool" where
  "appends_element env model v =
     (case first_edit (setProperty env (getValue model) [Index (- 1)] (Some v)
              (formattingOptions model)) of
        Inl e \<Rightarrow> False
      | Inr edit \<Rightarrow>
          (case elements env model of
             None \<Rightarrow> False
           | Some xs \<Rightarrow> elements env (applyEditsToBuffer edit model) = Some (xs @ [v])))"

definition removes_element :: "'e Collaborators \<Rightarrow> ITextModel \<Rightarrow> nat \<Rightarrow> bool" where
  "removes_element env model i =
     (case first_edit (setProperty env (getValue model) [Index (int i)] None
              (formattingOptions model)) of
        Inl e \<Rightarrow> False
      | Inr edit \<Rightarrow>
          (case elements env model of
             None \<Rightarrow> False
           | Some xs \<Rightarrow>
               i < length xs \<and>
               elements env (applyEditsToBuffer edit model) = Some (remove_nth i xs)))"

text \<open>The removal contract along the buffers a sequence of removals goes through.\<close>

fun removes_elements :: "'e Collaborators \<Rightarrow> ITextModel \<Rightarrow> nat list \<Rightarrow> bool" where
  "removes_elements env model [] = True"
| "removes_elements env model (i # rest) =
     (removes_element env model i \<and>
      (case first_edit (setProperty env (getValue model) [Index (int i)] None
               (formattingOptions model)) of
         Inl e \<Rightarrow> False
       | Inr edit \<Rightarrow> removes_elements env (applyEditsToBuffer edit model) rest))"





section \<open>Reference collaborators\<close>

text \<open>
  Modelled from the spec: executable stand-ins for the collaborators, used to evaluate the
  service on concrete documents. \<open>jsonc_parse\<close> is a parser for JSON with comments (blanks,
  line and block comments, strings with the simple escapes, integers, \<open>true\<close>, \<open>false\<close>,
  \<open>null\<close>, arrays and objects); a text of blanks and comments only parses to \<open>undefined\<close>
  without an error. \<open>parseTree\<close> gives every node with its offset and length, and a
  failed parse is counted as one error. \<open>jsonEdit_setProperty\<close> builds the patches of
  the spec's patch builder from these offsets; the text it inserts is compact (the
  formatting pass is left out, no property here depends on it).
\<close>

subsection \<open>The parser\<close>

text \<open>
  Modelled from the spec: the syntax tree of \<^verbatim>\<open>json.parseTree\<close>; every node carries its offset
  and its length, a member of an object also the offset at which its name begins.
\<close>

datatype Node =
  Leaf nat nat json
| ArrayNode nat nat "Node list"
| ObjectNode nat nat "(string \<times> nat \<times> Node) list"

text \<open>Blanks and comments between the tokens; a block comment has to be closed.\<close>

definition isSpace :: "char \<Rightarrow> bool" where
  "isSpace c = (c = CHR '' '' \<or> c = CHR 0x09 \<or> c = CHR 0x0A \<or> c = CHR 0x0D)"

definition isLineBreak :: "char \<Rightarrow> bool" where
  "isLineBreak c = (c = CHR 0x0A \<or> c = CHR 0x0D)"

datatype trivia = Blank | LineComment | BlockComment

fun skipTrivia :: "trivia \<Rightarrow> string \<Rightarrow> nat \<Rightarrow> (string \<times> nat) option" where
  "skipTrivia Blank [] n = Some ([], n)"
| "skipTrivia Blank (c # cs) n =
     (if isSpace c then skipTrivia Blank cs (Suc n)
      else if c = CHR ''/'' then
        (case cs of
           [] \<Rightarrow> Some (c # cs, n)
         | d # ds \<Rightarrow>
             if d = CHR ''/'' then skipTrivia LineComment ds (n + 2)
             else if d = CHR ''*'' then skipTrivia BlockComment ds (n + 2)
             else Some (c # cs, n))
      else Some (c # cs, n))"
| "skipTrivia LineComment [] n = Some ([], n)"
| "skipTrivia LineComment (c # cs) n =
     (if isLineBreak c then skipTrivia Blank cs (Suc n) else skipTrivia LineComment cs (Suc n))"
| "skipTrivia BlockComment [] n = None"
| "skipTrivia BlockComment (c # cs) n =
     (if c = CHR ''*'' then
        (case cs of
           [] \<Rightarrow> None
         | d # ds \<Rightarrow> if d = CHR ''/'' then skipTrivia Blank ds (n + 2) else skipTrivia BlockComment cs (Suc n))
      else skipTrivia BlockComment cs (Suc n))"

text \<open>
  A string after its opening quote: the characters, the number of characters read, the
  rest of the text.
\<close>

definition unescape :: "char \<Rightarrow> char option" where
  "unescape c =
     (if c = CHR 0x22 then Some (CHR 0x22)
      else if c = CHR 0x5C then Some (CHR 0x5C)
      else if c = CHR ''/'' then Some (CHR ''/'')
      else if c = CHR ''n'' then Some (CHR 0x0A)
      else if c = CHR ''r'' then Some (CHR 0x0D)
      else if c = CHR ''t'' then Some (CHR 0x09)
      else None)"

fun scanString :: "string \<Rightarrow> (string \<times> nat \<times> string) option" where
  "scanString [] = None"
| "scanString (c # cs) =
     (if c = CHR 0x22 then Some ([], 1, cs)
      else if c = CHR 0x5C then
        (case cs of
           [] \<Rightarrow> None
         | d # ds \<Rightarrow>
             (case unescape d of
                None \<Rightarrow> None
              | Some u \<Rightarrow>
                  (case scanString ds of
                     None \<Rightarrow> None
                   | Some (s, k, rest) \<Rightarrow> Some (u # s, k + 2, rest))))
      else if isLineBreak c then None
      else
        (case scanString cs of
           None \<Rightarrow> None
         | Some (s, k, rest) \<Rightarrow> Some (c # s, Suc k, rest)))"

text \<open>Integers and the literals \<open>true\<close>, \<open>false\<close> and \<open>null\<close>.\<close>

definition isDigit :: "char \<Rightarrow> bool" where
  "isDigit c = (c \<in> set ''0123456789'')"

definition digitValue :: "char \<Rightarrow> nat" where
  "digitValue c = of_char c - 48"

fun scanDigits :: "string \<Rightarrow> nat \<Rightarrow> nat \<Rightarrow> nat \<times> nat \<times> string" where
  "scanDigits [] acc k = (acc, k, [])"
| "scanDigits (c # cs) acc k =
     (if isDigit c then scanDigits cs (acc * 10 + digitValue c) (Suc k) else (acc, k, c # cs))"

definition scanNumber :: "string \<Rightarrow> (int \<times> nat \<times> string) option" where
  "scanNumber cs =
     (case cs of
        [] \<Rightarrow> None
      | c # ds \<Rightarrow>
          (if c = CHR ''-'' then
             (case scanDigits ds 0 0 of
                (v, k, rest) \<Rightarrow> if k = 0 then None else Some (- int v, Suc k, rest))
           else
             (case scanDigits cs 0 0 of
                (v, k, rest) \<Rightarrow> if k = 0 then None else Some (int v, k, rest))))"

definition scanLiteral :: "string \<Rightarrow> (json \<times> nat \<times> string) option" where
  "scanLiteral cs =
     (if take 4 cs = ''true'' then Some (JBool True, 4, drop 4 cs)
      else if take 5 cs = ''false'' then Some (JBool False, 5, drop 5 cs)
      else if take 4 cs = ''null'' then Some (JNull, 4, drop 4 cs)
      else (case scanNumber cs of
              None \<Rightarrow> None
            | Some (v, k, rest) \<Rightarrow> Some (JNum v, k, rest)))"

text \<open>The name of a member, its colon and the blanks up to its value.\<close>

definition scanMemberName :: "string \<Rightarrow> nat \<Rightarrow> (string \<times> string \<times> nat) option" where
  "scanMemberName cs n =
     (case cs of
        [] \<Rightarrow> None
      | q # qs \<Rightarrow>
          (if q \<noteq> CHR 0x22 then None
           else
             (case scanString qs of
                None \<Rightarrow> None
              | Some (name, k, afterName) \<Rightarrow>
                  (case skipTrivia Blank afterName (n + Suc k) of
                     None \<Rightarrow> None
                   | Some ([], i) \<Rightarrow> None
                   | Some (colon # afterColon, i) \<Rightarrow>
                       (if colon \<noteq> CHR '':'' then None
                        else
                          (case skipTrivia Blank afterColon (Suc i) of
                             None \<Rightarrow> None
                           | Some (vs, l) \<Rightarrow> Some (name, vs, l)))))))"

text \<open>The separator before an element or a member that is not the first one.\<close>

definition skipSeparator :: "bool \<Rightarrow> string \<Rightarrow> nat \<Rightarrow> (string \<times> nat) option" where
  "skipSeparator first cs n =
     (if first then Some (cs, n)
      else
        (case cs of
           [] \<Rightarrow> None
         | c # ds \<Rightarrow> if c = CHR '','' then skipTrivia Blank ds (Suc n) else None))"

text \<open>
  The recursive descent. The first argument bounds the depth of the recursion (\<open>parseTree\<close>
  passes the length of the text); a parse that exhausts it fails like a syntax error.
\<close>

fun parseValue :: "nat \<Rightarrow> string \<Rightarrow> nat \<Rightarrow> (Node \<times> string \<times> nat) option"
and parseElements :: "nat \<Rightarrow> bool \<Rightarrow> string \<Rightarrow> nat \<Rightarrow> (Node list \<times> string \<times> nat) option"
and parseMembers :: "nat \<Rightarrow> bool \<Rightarrow> string \<Rightarrow> nat \<Rightarrow> ((string \<times> nat \<times> Node) list \<times> string \<times> nat) option"
where
  "parseValue 0 cs n = None"
| "parseValue (Suc fuel) cs n =
     (case cs of
        [] \<Rightarrow> None
      | c # ds \<Rightarrow>
          (if c = CHR ''['' then
             (case parseElements fuel True ds (Suc n) of
                None \<Rightarrow> None
              | Some (nodes, rest, m) \<Rightarrow> Some (ArrayNode n (m - n) nodes, rest, m))
           else if c = CHR ''{'' then
             (case parseMembers fuel True ds (Suc n) of
                None \<Rightarrow> None
              | Some (members, rest, m) \<Rightarrow> Some (ObjectNode n (m - n) members, rest, m))
           else if c = CHR 0x22 then
             (case scanString ds of
                None \<Rightarrow> None
              | Some (s, k, rest) \<Rightarrow> Some (Leaf n (Suc k) (JStr s), rest, n + Suc k))
           else
             (case scanLiteral cs of
                None \<Rightarrow> None
              | Some (v, k, rest) \<Rightarrow> Some (Leaf n k v, rest, n + k))))"
| "parseElements 0 first cs n = None"
| "parseElements (Suc fuel) first cs n =
     (case skipTrivia Blank cs n of
        None \<Rightarrow> None
      | Some ([], m) \<Rightarrow> None
      | Some (c # ds, m) \<Rightarrow>
          (if c = CHR '']'' then Some ([], ds, Suc m)
           else
             (case skipSeparator first (c # ds) m of
                None \<Rightarrow> None
              | Some (es, j) \<Rightarrow>
                  (case parseValue fuel es j of
                     None \<Rightarrow> None
                   | Some (node, rest, k) \<Rightarrow>
                       (case parseElements fuel False rest k of
                          None \<Rightarrow> None
                        | Some (nodes, rest', k') \<Rightarrow> Some (node # nodes, rest', k'))))))"
| "parseMembers 0 first cs n = None"
| "parseMembers (Suc fuel) first cs n =
     (case skipTrivia Blank cs n of
        None \<Rightarrow> None
      | Some ([], m) \<Rightarrow> None
      | Some (c # ds, m) \<Rightarrow>
          (if c = CHR ''}'' then Some ([], ds, Suc m)
           else
             (case skipSeparator first (c # ds) m of
                None \<Rightarrow> None
              | Some (qs, j) \<Rightarrow>
                  (case scanMemberName qs j of
                     None \<Rightarrow> None
                   | Some (name, vs, l) \<Rightarrow>
                       (case parseValue fuel vs l of
                          None \<Rightarrow> None
                        | Some (node, rest, e) \<Rightarrow>
                            (case parseMembers fuel False rest e of
                               None \<Rightarrow> None
                             | Some (members, rest', e') \<Rightarrow>
                                 Some ((name, j, node) # members, rest', e')))))))"

fun nodeValue :: "Node \<Rightarrow> json" where
  "nodeValue (Leaf n k v) = v"
| "nodeValue (ArrayNode n k nodes) = JArr (map nodeValue nodes)"
| "nodeValue (ObjectNode n k members) = JObj (map (\<lambda>(name, j, node). (name, nodeValue node)) members)"

text \<open>
  Modelled from the spec: \<^verbatim>\<open>json.parseTree\<close> and \<^verbatim>\<open>json.parse\<close> with the number of parse
  errors. A text of blanks and comments has no value and no error.
\<close>

definition parseTree :: "string \<Rightarrow> Node option \<times> nat" where
  "parseTree text =
     (case skipTrivia Blank text 0 of
        None \<Rightarrow> (None, 1)
      | Some ([], n) \<Rightarrow> (None, 0)
      | Some (cs, n) \<Rightarrow>
          (case parseValue (Suc (length text)) cs n of
             None \<Rightarrow> (None, 1)
           | Some (node, rest, m) \<Rightarrow>
               (case skipTrivia Blank rest m of
                  None \<Rightarrow> (Some node, 1)
                | Some ([], k) \<Rightarrow> (Some node, 0)
                | Some (c # ds, k) \<Rightarrow> (Some node, 1))))"

definition jsonc_parse :: "string \<Rightarrow> json option \<times> nat" where
  "jsonc_parse text = (case parseTree text of (tree, errors) \<Rightarrow> (map_option nodeValue tree, errors))"

subsection \<open>The structural editor\<close>

text \<open>Modelled from the spec: \<^verbatim>\<open>JSON.stringify\<close> of the value to insert, without blanks.\<close>

function showNat :: "nat \<Rightarrow> string" where
  "showNat n = (if n < 10 then [char_of (48 + n)] else showNat (n div 10) @ [char_of (48 + n mod 10)])"
  by pat_completeness auto
termination
  by (relation "measure id") auto

fun quoteString :: "string \<Rightarrow> string" where
  "quoteString [] = [CHR 0x22]"
| "quoteString (c # cs) =
     (if c = CHR 0x22 \<or> c = CHR 0x5C then CHR 0x5C # c # quoteString cs
      else if c = CHR 0x0A then CHR 0x5C # CHR ''n'' # quoteString cs
      else if c = CHR 0x0D then CHR 0x5C # CHR ''r'' # quoteString cs
      else if c = CHR 0x09 then CHR 0x5C # CHR ''t'' # quoteString cs
      else c # quoteString cs)"

fun intercalate :: "string \<Rightarrow> string list \<Rightarrow> string" where
  "intercalate sep [] = []"
| "intercalate sep [x] = x"
| "intercalate sep (x # y # ys) = x @ sep @ intercalate sep (y # ys)"

fun stringify :: "json \<Rightarrow> string" where
  "stringify JNull = ''null''"
| "stringify (JBool b) = (if b then ''true'' else ''false'')"
| "stringify (JNum n) = (if n < 0 then CHR ''-'' # showNat (nat (- n)) else showNat (nat n))"
| "stringify (JStr s) = CHR 0x22 # quoteString s"
| "stringify (JArr xs) = ''['' @ intercalate '','' (map stringify xs) @ '']''"
| "stringify (JObj ps) =
     ''{'' @ intercalate '','' (map (\<lambda>p. CHR 0x22 # quoteString (fst p) @ '':'' @ stringify (snd p)) ps) @ ''}''"

text \<open>
  Modelled from the spec: the patches of the patch builder. An element is appended after the
  last element (or after the opening bracket of an empty array); an element is removed with
  the comma that separates it from a neighbour; a property is replaced at the span of its
  value, inserted after the last property, or removed with its comma; removing a property
  that is absent gives no edit.
\<close>

fun nodeOffset :: "Node \<Rightarrow> nat" where
  "nodeOffset (Leaf n k v) = n"
| "nodeOffset (ArrayNode n k nodes) = n"
| "nodeOffset (ObjectNode n k members) = n"

fun nodeLength :: "Node \<Rightarrow> nat" where
  "nodeLength (Leaf n k v) = k"
| "nodeLength (ArrayNode n k nodes) = k"
| "nodeLength (ObjectNode n k members) = k"

definition nodeEnd :: "Node \<Rightarrow> nat" where
  "nodeEnd node = nodeOffset node + nodeLength node"

definition insertElement :: "nat \<Rightarrow> Node list \<Rightarrow> json \<Rightarrow> Edit" where
  "insertElement arrayOffset children v =
     (if children = [] then \<lparr>offset = Suc arrayOffset, edit_length = 0, content = stringify v\<rparr>
      else \<lparr>offset = nodeEnd (last children), edit_length = 0, content = CHR '','' # stringify v\<rparr>)"

definition removeElement :: "nat \<Rightarrow> nat \<Rightarrow> Node list \<Rightarrow> nat \<Rightarrow> Edit" where
  "removeElement arrayOffset arrayLength children i =
     (if length children = 1 then
        \<lparr>offset = Suc arrayOffset, edit_length = arrayLength - 2, content = []\<rparr>
      else if Suc i = length children then
        \<lparr>offset = nodeEnd (children ! (i - 1)),
         edit_length = arrayOffset + arrayLength - 1 - nodeEnd (children ! (i - 1)), content = []\<rparr>
      else
        \<lparr>offset = nodeOffset (children ! i),
         edit_length = nodeOffset (children ! Suc i) - nodeOffset (children ! i), content = []\<rparr>)"

fun memberIndex :: "(string \<times> nat \<times> Node) list \<Rightarrow> string \<Rightarrow> nat \<Rightarrow> nat option" where
  "memberIndex [] name i = None"
| "memberIndex (m # ms) name i = (if fst m = name then Some i else memberIndex ms name (Suc i))"

definition memberEnd :: "string \<times> nat \<times> Node \<Rightarrow> nat" where
  "memberEnd m = nodeEnd (snd (snd m))"

definition setMember :: "nat \<Rightarrow> (string \<times> nat \<times> Node) list \<Rightarrow> string \<Rightarrow> json option \<Rightarrow> Edit list" where
  "setMember objectOffset members name v =
     (case memberIndex members name 0 of
        Some i \<Rightarrow>
          (case v of
             Some x \<Rightarrow>
               [\<lparr>offset = nodeOffset (snd (snd (members ! i))),
                 edit_length = nodeLength (snd (snd (members ! i))), content = stringify x\<rparr>]
           | None \<Rightarrow>
               (if 0 < i then
                  [\<lparr>offset = memberEnd (members ! (i - 1)),
                    edit_length = memberEnd (members ! i) - memberEnd (members ! (i - 1)), content = []\<rparr>]
                else if 1 < length members then
                  [\<lparr>offset = Suc objectOffset,
                    edit_length = fst (snd (members ! 1)) - Suc objectOffset, content = []\<rparr>]
                else
                  [\<lparr>offset = Suc objectOffset,
                    edit_length = memberEnd (members ! i) - Suc objectOffset, content = []\<rparr>]))
      | None \<Rightarrow>
          (case v of
             None \<Rightarrow> []
           | Some x \<Rightarrow>
               (if members = [] then
                  [\<lparr>offset = Suc objectOffset, edit_length = 0,
                    content = CHR 0x22 # quoteString name @ '': '' @ stringify x\<rparr>]
                else
                  [\<lparr>offset = memberEnd (last members), edit_length = 0,
                    content = CHR '','' # CHR 0x22 # quoteString name @ '': '' @ stringify x\<rparr>])))"

text \<open>
  Modelled from the spec: \<^verbatim>\<open>setProperty\<close> for the paths the service uses, \<open>[-1]\<close> with a
  value, \<open>[i]\<close> without one and \<open>[i, name]\<close>; for every other path, and for a text that is
  not an array, it throws.
\<close>

definition jsonEdit_setProperty ::
  "string \<Rightarrow> Segment list \<Rightarrow> json option \<Rightarrow> FormattingOptions \<Rightarrow> Edit list option" where
  "jsonEdit_setProperty text path v options =
     (case fst (parseTree text) of
        Some (ArrayNode arrayOffset arrayLength children) \<Rightarrow>
          (case path of
             [Index i] \<Rightarrow>
               (if i = - 1 then
                  (case v of None \<Rightarrow> None | Some x \<Rightarrow> Some [insertElement arrayOffset children x])
                else if 0 \<le> i \<and> nat i < length children \<and> v = None then
                  Some [removeElement arrayOffset arrayLength children (nat i)]
                else None)
           | [Index i, Property name] \<Rightarrow>
               (if 0 \<le> i \<and> nat i < length children then
                  (case children ! nat i of
                     ObjectNode objectOffset objectLength members \<Rightarrow>
                       Some (setMember objectOffset members name v)
                   | _ \<Rightarrow> None)
                else None)
           | _ \<Rightarrow> None)
      | _ \<Rightarrow> None)"


subsection \<open>The canonicalizer and the store\<close>

text \<open>
  Modelled from the spec: context-key expressions as the sorted list of their conjuncts, so
  that \<open>a && b\<close> and \<open>b&&a\<close> canonicalize to the same expression; a text without a
  conjunct does not deserialize.
\<close>

fun splitAnd :: "string \<Rightarrow> string \<Rightarrow> string list" where
  "splitAnd piece [] = [rev piece]"
| "splitAnd piece (c # cs) =
     (case cs of
        [] \<Rightarrow> splitAnd (c # piece) cs
      | d # ds \<Rightarrow>
          if c = CHR ''&'' \<and> d = CHR ''&'' then rev piece # splitAnd [] ds
          else splitAnd (c # piece) cs)"

definition trim :: "string \<Rightarrow> string" where
  "trim s = rev (dropWhile isSpace (rev (dropWhile isSpace s)))"

definition contextKey_deserialize :: "string \<Rightarrow> string list option" where
  "contextKey_deserialize serialized =
     (let pieces = filter (\<lambda>p. p \<noteq> []) (map trim (splitAnd [] serialized))
      in if pieces = [] then None else Some (sort pieces))"

definition contextKey_serialize :: "string list \<Rightarrow> string" where
  "contextKey_serialize pieces = intercalate '' && '' pieces"

text \<open>
  Modelled from the spec: the collaborators together. The store returns what it holds and a
  write replaces it; the canonicalizer throws on a value that is not a string; buffers end
  their lines with a line feed. \<open>failingWrite\<close> is the same
  with a store that rejects every write and keeps what it holds.
\<close>

definition referenceCollaborators :: "string list Collaborators" where
  "referenceCollaborators =
     \<lparr>json_parse = jsonc_parse, setProperty = jsonEdit_setProperty,
      deserialize = contextKey_deserialize, deserialize_nonstring = (\<lambda>v. Inl TypeError),
      serialize = contextKey_serialize,
      userData_read = Inr, userData_write = (\<lambda>text old. (None, Some text)),
      bufferEOL = [CHR 0x0A], bufferTabSize = 4, bufferInsertSpaces = True\<rparr>"

definition failingWrite :: "string list Collaborators" where
  "failingWrite = referenceCollaborators\<lparr>userData_write := (\<lambda>text old. (Some WriteError, old))\<rparr>"

section \<open>Example documents and requests\<close>


definition foo_when_a_b :: "string list ResolvedKeybindingItem" where
  "foo_when_a_b =
     \<lparr>isDefault = False, resolvedKeybinding = Some (Some ''ctrl+l''),
      item_command = Some ''foo'', item_when = Some [''a'', ''b'']\<rparr>"

definition blank_when_entries :: "IUserFriendlyKeybinding list" where
  "blank_when_entries =
     [\<lparr>key = ''ctrl+k'', command = ''foo'', when = Some '' ''\<rparr>,
      \<lparr>key = ''ctrl+l'', command = ''foo'', when = Some ''b&&a''\<rparr>]"

definition foo_when_ampersands :: "string list ResolvedKeybindingItem" where
  "foo_when_ampersands =
     \<lparr>isDefault = False, resolvedKeybinding = Some (Some ''ctrl+l''),
      item_command = Some ''foo'', item_when = Some [''&&'']\<rparr>"

definition world_with :: "string option \<Rightarrow> World" where
  "world_with document = \<lparr>stored = document, writeCalls = 0, liveModels = 0\<rparr>"

definition user_foo :: "string list ResolvedKeybindingItem" where
  "user_foo =
     \<lparr>isDefault = False, resolvedKeybinding = Some (Some ''ctrl+k''),
      item_command = Some ''foo'', item_when = None\<rparr>"

definition single_foo_document :: string where
  \<open>single_foo_document = ''[{"key":"ctrl+k","command":"foo"}]''\<close>

definition default_bar :: "string list ResolvedKeybindingItem" where
  "default_bar =
     \<lparr>isDefault = True, resolvedKeybinding = Some (Some ''ctrl+d''),
      item_command = Some ''bar'', item_when = Some [''editorFocus'']\<rparr>"

definition default_unbound :: "string list ResolvedKeybindingItem" where
  "default_unbound =
     \<lparr>isDefault = True, resolvedKeybinding = None,
      item_command = Some ''bar'', item_when = None\<rparr>"

definition foo_bar_document :: string where
  \<open>foo_bar_document = ''[{"key":"ctrl+k","command":"foo"},{"key":"ctrl+j","command":"bar"}]''\<close>


definition bar_override_document :: string where
  \<open>bar_override_document =
     ''[{"key":"ctrl+j","command":"bar","when":"editorFocus"},{"key":"ctrl+d","command":"-bar","when":"editorFocus"}]''\<close>

definition bar_negation_document :: string where
  \<open>bar_negation_document = ''[{"key":"ctrl+d","command":"-bar","when":"editorFocus"}]''\<close>

definition three_entries_document :: string where
  \<open>three_entries_document = ''// Place your key bindings in this file to override the defaults
[
    {"key": "ctrl+k", "command": "foo", "when": "b&&a"},
    {"key": "ctrl+j", "command": "-foo"},
    {"key": "ctrl+h", "command": "foo"}
]''\<close>

definition after_reset_document :: string where
  \<open>after_reset_document = ''// Place your key bindings in this file to override the defaults
[
    {"key": "ctrl+h", "command": "foo"}
]''\<close>



definition bar_single_document :: string where
  \<open>bar_single_document = ''[{"key":"ctrl+j","command":"bar","when":"editorFocus"}]''\<close>


section \<open>Properties of the entry matcher\<close>

lemma truthy_string_present: "truthy_string (when keybinding) = when_present keybinding"
  by (cases "when keybinding") (simp_all add: when_present_def)

lemma loop_step:
  "findUserKeybindingEntryIndex_loop env keybindingItem (keybinding # rest) index =
     (if entry_matches env keybindingItem keybinding then int index
      else findUserKeybindingEntryIndex_loop env keybindingItem rest (Suc index))"
  by (cases "when keybinding"; cases "item_when keybindingItem")
     (auto simp: entry_matches_def when_matches_def when_present_def split: option.splits)

declare findUserKeybindingEntryIndex_loop.simps(2) [simp del]


lemma loop_range:
  "findUserKeybindingEntryIndex_loop env keybindingItem entries index = - 1 \<or>
   (int index \<le> findUserKeybindingEntryIndex_loop env keybindingItem entries index \<and>
    findUserKeybindingEntryIndex_loop env keybindingItem entries index < int index + int (length entries))"
proof (induction entries arbitrary: index)
  case Nil
  show ?case by simp
next
  case (Cons keybinding rest)
  show ?case unfolding loop_step using Cons.IH [of "Suc index"] by auto
qed

lemma loop_found:
  assumes "findUserKeybindingEntryIndex_loop env keybindingItem entries index = r" and "r \<noteq> - 1"
  shows "entry_matches env keybindingItem (entries ! (nat r - index)) \<and>
         (\<forall>j < nat r - index. \<not> entry_matches env keybindingItem (entries ! j))"
  using assms
proof (induction entries arbitrary: index)
  case Nil
  then show ?case by simp
next
  case (Cons keybinding rest)
  show ?case
  proof (cases "entry_matches env keybindingItem keybinding")
    case True
    with Cons.prems show ?thesis by (simp add: loop_step)
  next
    case False
    with Cons.prems have rest: "findUserKeybindingEntryIndex_loop env keybindingItem rest (Suc index) = r"
      by (simp add: loop_step)
    from loop_range [of env keybindingItem rest "Suc index"] rest Cons.prems(2)
    have bound: "int (Suc index) \<le> r" by auto
    then have shift: "nat r - index = Suc (nat r - Suc index)" by linarith
    from Cons.IH [OF rest Cons.prems(2)] False show ?thesis
      unfolding shift by (auto simp: less_Suc_eq_0_disj)
  qed
qed



text \<open>
  Claim C10. The entry matcher never returns the index of an entry whose \<open>when\<close> is
  present (a non-empty string) and does not deserialize to a context-key expression. This
  holds whatever the text of that \<open>when\<close> is, so also when it is character for character
  the target's serialized \<open>when\<close>; the loop goes on to the entries after it.
\<close>

theorem findUserKeybindingEntryIndex_skips_undeserializable:
  assumes "findUserKeybindingEntryIndex env keybindingItem entries = int i"
    and "when_present (entries ! i)"
  shows "deserialize env (the (when (entries ! i))) \<noteq> None"
proof -
  from assms(1) have loop: "findUserKeybindingEntryIndex_loop env keybindingItem entries 0 = int i"
    by (simp add: findUserKeybindingEntryIndex_def)
  from loop_found [OF loop] have "entry_matches env keybindingItem (entries ! i)" by simp
  with assms(2) show ?thesis
    by (auto simp: entry_matches_def when_matches_def split: option.splits)
qed

theorem findUserKeybindingEntryIndex_skips_undeserializable_witness:
  "findUserKeybindingEntryIndex referenceCollaborators foo_when_a_b blank_when_entries = int 1 \<and>
   when_present (blank_when_entries ! 0) \<and>
   deserialize referenceCollaborators (the (when (blank_when_entries ! 0))) = None \<and>
   when_present (blank_when_entries ! 1) \<and>
   deserialize referenceCollaborators (the (when (blank_when_entries ! 1))) \<noteq> None \<and>
   serialize referenceCollaborators (the (item_when foo_when_ampersands)) = ''&&'' \<and>
   findUserKeybindingEntryIndex referenceCollaborators foo_when_ampersands
     [\<lparr>key = ''ctrl+k'', command = ''foo'', when = Some ''&&''\<rparr>] = - 1"
proof -
  have found:
    "findUserKeybindingEntryIndex referenceCollaborators foo_when_a_b blank_when_entries = int 1"
    by code_simp
  have present: "when_present (blank_when_entries ! 1)"
    by code_simp
  have skipped: "when_present (blank_when_entries ! 0)"
    "deserialize referenceCollaborators (the (when (blank_when_entries ! 0))) = None"
    by code_simp+
  have identical: "serialize referenceCollaborators (the (item_when foo_when_ampersands)) = ''&&''"
    "findUserKeybindingEntryIndex referenceCollaborators foo_when_ampersands
       [\<lparr>key = ''ctrl+k'', command = ''foo'', when = Some ''&&''\<rparr>] = - 1"
    by code_simp+
  from findUserKeybindingEntryIndex_skips_undeserializable [OF found present] found present
    skipped identical
  show ?thesis by simp
qed

section \<open>Parsed entries of the declared type\<close>

text \<open>
  On elements that have the declared type of an entry, the loops over the parsed values
  return what the loops over the typed entries return, and never throw.
\<close>

lemma keybinding_json_cases:
  assumes "keybinding_json x"
  obtains ps c where "x = JObj ps" and "property ps ''command'' = Some (JStr c)"
    and "property ps ''when'' = None \<or> (\<exists>s. property ps ''when'' = Some (JStr s))"
proof -
  from assms obtain ps where x: "x = JObj ps" by (cases x) simp_all
  with assms have "is_string (property ps ''command'')"
    and "property ps ''when'' = None \<or> is_string (property ps ''when'')" by simp_all
  then obtain c where "property ps ''command'' = Some (JStr c)"
    and "property ps ''when'' = None \<or> (\<exists>s. property ps ''when'' = Some (JStr s))"
    by (auto elim!: is_string.elims)
  with x that show thesis by blast
qed

lemma findUserKeybindingEntryIndex_parsed_loop_typed:
  "list_all keybinding_json xs \<Longrightarrow>
     findUserKeybindingEntryIndex_parsed_loop env keybindingItem xs index =
       Inr (findUserKeybindingEntryIndex_loop env keybindingItem (map entry_of xs) index)"
proof (induction xs arbitrary: index)
  case Nil
  show ?case by simp
next
  case (Cons x xs)
  from Cons.prems have "keybinding_json x" and rest: "list_all keybinding_json xs" by simp_all
  then obtain ps c where x: "x = JObj ps" and c: "property ps ''command'' = Some (JStr c)"
    and w: "property ps ''when'' = None \<or> (\<exists>s. property ps ''when'' = Some (JStr s))"
    by (auto elim: keybinding_json_cases)
  note IH = Cons.IH [OF rest, of "Suc index"]
  from w show ?case
  proof
    assume "property ps ''when'' = None"
    with x c IH show ?thesis
      by (cases "item_command keybindingItem")
         (auto simp: findUserKeybindingEntryIndex_loop.simps(2))
  next
    assume "\<exists>s. property ps ''when'' = Some (JStr s)"
    then obtain s where "property ps ''when'' = Some (JStr s)" by blast
    with x c IH show ?thesis
      by (cases "item_command keybindingItem")
         (auto simp: findUserKeybindingEntryIndex_loop.simps(2) deserialize_value_def
               split: option.splits)
  qed
qed

lemma findUserKeybindingEntryIndex_parsed_typed:
  "list_all keybinding_json xs \<Longrightarrow>
     findUserKeybindingEntryIndex_parsed env keybindingItem xs =
       Inr (findUserKeybindingEntryIndex env keybindingItem (map entry_of xs))"
  by (simp add: findUserKeybindingEntryIndex_parsed_def findUserKeybindingEntryIndex_def
        findUserKeybindingEntryIndex_parsed_loop_typed)

lemma findUnassignedDefaultKeybindingEntryIndex_parsed_loop_typed:
  "list_all keybinding_json xs \<Longrightarrow>
     findUnassignedDefaultKeybindingEntryIndex_parsed_loop keybindingItem xs index =
       Inr (findUnassignedDefaultKeybindingEntryIndex_loop keybindingItem (map entry_of xs) index)"
proof (induction xs arbitrary: index)
  case Nil
  show ?case by simp
next
  case (Cons x xs)
  from Cons.prems have "keybinding_json x" and rest: "list_all keybinding_json xs" by simp_all
  then obtain ps c where "x = JObj ps" and "property ps ''command'' = Some (JStr c)"
    by (auto elim: keybinding_json_cases)
  with Cons.IH [OF rest, of "Suc index"] show ?case by simp
qed

lemma findUnassignedDefaultKeybindingEntryIndex_parsed_typed:
  "list_all keybinding_json xs \<Longrightarrow>
     findUnassignedDefaultKeybindingEntryIndex_parsed keybindingItem xs =
       Inr (findUnassignedDefaultKeybindingEntryIndex keybindingItem (map entry_of xs))"
  by (simp add: findUnassignedDefaultKeybindingEntryIndex_parsed_def
        findUnassignedDefaultKeybindingEntryIndex_def
        findUnassignedDefaultKeybindingEntryIndex_parsed_loop_typed)

text \<open>
  Where the types are not kept, the loops on the parsed values do what the code does: a
  \<open>null\<close> element throws, an element without a command never matches, and a \<open>when\<close> that
  is a truthy number is not absent.
\<close>

lemma untyped_elements:
  "findUserKeybindingEntryIndex_parsed env keybindingItem [JNull] = Inl TypeError"
  "findUnassignedDefaultKeybindingEntryIndex_parsed keybindingItem [JNull] = Inl TypeError"
  "findUserKeybindingEntryIndex_parsed env keybindingItem [JObj [(''key'', JStr k)]] = Inr (- 1)"
  "item_when keybindingItem = None \<Longrightarrow>
     findUserKeybindingEntryIndex_parsed env keybindingItem
       [JObj [(''command'', JStr c), (''when'', JNum 5)]] = Inr (- 1)"
  by (simp_all add: findUserKeybindingEntryIndex_parsed_def
        findUnassignedDefaultKeybindingEntryIndex_parsed_def property_def)

section \<open>Persistence\<close>

lemma resolveModel_store:
  "resolveModel env w = (r, w1) \<Longrightarrow> stored w1 = stored w \<and> writeCalls w1 = writeCalls w"
  by (auto simp: resolveModel_def Let_def split: sum.splits)

lemma resolveModel_live:
  "resolveModel env w = (r, w1) \<Longrightarrow>
     liveModels w1 = (case userData_read env (stored w) of Inl e \<Rightarrow> liveModels w | Inr c \<Rightarrow> Suc (liveModels w))"
  by (auto simp: resolveModel_def Let_def split: sum.splits)

lemma resolveModel_read_error:
  "resolveModel env w = (r, w1) \<Longrightarrow> userData_read env (stored w) = Inl e \<Longrightarrow> r = Inl e"
  by (auto simp: resolveModel_def Let_def split: sum.splits)

lemma resolveModel_read_ok:
  "resolveModel env w = (r, w1) \<Longrightarrow> userData_read env (stored w) = Inr c \<Longrightarrow>
     r = Inr (createModel env (if truthy_string c then the c else ''[]''))"
  by (auto simp: resolveModel_def Let_def split: sum.splits)

lemma resolveAndValidate_world:
  "resolveAndValidate env w = (r, w1) \<Longrightarrow> w1 = snd (resolveModel env w)"
  by (auto simp: resolveAndValidate_def Let_def split: prod.splits sum.splits if_splits)

lemma resolveAndValidate_store:
  assumes "resolveAndValidate env w = (r, w1)"
  shows "stored w1 = stored w \<and> writeCalls w1 = writeCalls w"
proof -
  obtain r0 w0 where rm: "resolveModel env w = (r0, w0)" by (cases "resolveModel env w")
  with resolveAndValidate_world [OF assms] have "w1 = w0" by simp
  with resolveModel_store [OF rm] show ?thesis by simp
qed

lemma save_store:
  "save env model w = (r, w') \<Longrightarrow>
     writeCalls w' = Suc (writeCalls w) \<and>
     userData_write env (getValue model) (stored w) = (case r of Inl e \<Rightarrow> Some e | Inr u \<Rightarrow> None, stored w')"
  by (auto simp: save_def split: prod.splits option.splits)

lemma save_live:
  "save env model w = (r, w') \<Longrightarrow>
     liveModels w' = (case r of Inl e \<Rightarrow> liveModels w | Inr u \<Rightarrow> liveModels w - 1)"
  by (auto simp: save_def split: prod.splits option.splits)

lemma perform_resolve_patch_save:
  "perform env request = resolve_patch_save env (patches_of env request)"
  by (cases request) (simp_all add: doEditKeybinding_def doRemoveKeybinding_def doResetKeybinding_def)

text \<open>
  Claim C7. For each of the three operations: when the validation fails, or a patch on the
  in-memory model fails, the error is the operation's result, the stored document is
  unchanged and the store's write has not been called; otherwise the write is called exactly
  once, after all patches, with the text of the patched model, and the operation fails only
  if that write does.
\<close>

theorem persist_once_at_end:
  assumes "perform env request w = (r, w')"
  shows "case resolveAndValidate env w of
           (Inl e, w1) \<Rightarrow> r = Inl e \<and> stored w' = stored w \<and> writeCalls w' = writeCalls w
         | (Inr model, w1) \<Rightarrow>
             (case patches_of env request model of
                Inl e \<Rightarrow> r = Inl e \<and> stored w' = stored w \<and> writeCalls w' = writeCalls w
              | Inr model1 \<Rightarrow>
                  writeCalls w' = Suc (writeCalls w) \<and>
                  userData_write env (getValue model1) (stored w) =
                    (case r of Inl e \<Rightarrow> Some e | Inr u \<Rightarrow> None, stored w'))"
proof -
  obtain r0 w1 where rv: "resolveAndValidate env w = (r0, w1)"
    by (cases "resolveAndValidate env w")
  note st = resolveAndValidate_store [OF rv]
  from assms have run: "resolve_patch_save env (patches_of env request) w = (r, w')"
    by (simp add: perform_resolve_patch_save)
  show ?thesis
  proof (cases r0)
    case (Inl e)
    with run rv st show ?thesis by (auto simp: resolve_patch_save_def)
  next
    case (Inr model)
    show ?thesis
    proof (cases "patches_of env request model")
      case (Inl e)
      with run rv st Inr show ?thesis by (auto simp: resolve_patch_save_def)
    next
      case patched: (Inr model1)
      with run rv Inr have "save env model1 w1 = (r, w')" by (simp add: resolve_patch_save_def)
      from save_store [OF this] st rv Inr patched show ?thesis by simp
    qed
  qed
qed

theorem persist_once_at_end_witness:
  "perform referenceCollaborators (RemoveKeybinding user_foo) (world_with (Some ''[1, 2,'')) =
     (Inl ParseError, \<lparr>stored = Some ''[1, 2,'', writeCalls = 0, liveModels = 1\<rparr>) \<and>
   perform referenceCollaborators (RemoveKeybinding user_foo) (world_with (Some ''null'')) =
     (Inl TypeError, \<lparr>stored = Some ''null'', writeCalls = 0, liveModels = 1\<rparr>) \<and>
   perform referenceCollaborators (RemoveKeybinding user_foo) (world_with (Some single_foo_document)) =
     (Inr (), \<lparr>stored = Some ''[]'', writeCalls = 1, liveModels = 0\<rparr>) \<and>
   userData_write referenceCollaborators ''[]'' (Some single_foo_document) = (None, Some ''[]'')"
proof -
  let ?request = "RemoveKeybinding user_foo :: string list Request"
  have refused: "perform referenceCollaborators ?request (world_with (Some ''[1, 2,'')) =
      (Inl ParseError, \<lparr>stored = Some ''[1, 2,'', writeCalls = 0, liveModels = 1\<rparr>)"
    by code_simp
  have thrown: "perform referenceCollaborators ?request (world_with (Some ''null'')) =
      (Inl TypeError, \<lparr>stored = Some ''null'', writeCalls = 0, liveModels = 1\<rparr>)"
    by code_simp
  have written: "perform referenceCollaborators ?request (world_with (Some single_foo_document)) =
      (Inr (), \<lparr>stored = Some ''[]'', writeCalls = 1, liveModels = 0\<rparr>)"
    by code_simp
  have valid: "resolveAndValidate referenceCollaborators (world_with (Some single_foo_document)) =
      (Inr (createModel referenceCollaborators single_foo_document),
       \<lparr>stored = Some single_foo_document, writeCalls = 0, liveModels = 1\<rparr>)"
    by code_simp
  have patched: "patches_of referenceCollaborators ?request
      (createModel referenceCollaborators single_foo_document) =
      Inr (createModel referenceCollaborators ''[]'')"
    by code_simp
  from persist_once_at_end [OF written] valid patched
  have "userData_write referenceCollaborators ''[]'' (Some single_foo_document) = (None, Some ''[]'')"
    by (simp add: world_with_def createModel_def)
  with refused thrown written show ?thesis by simp
qed

section \<open>The life of the model\<close>

lemma perform_live:
  assumes "perform env request w = (r, w')"
  shows "liveModels w' =
           (case userData_read env (stored w) of
              Inl e \<Rightarrow> liveModels w
            | Inr c \<Rightarrow> (case r of Inl e \<Rightarrow> Suc (liveModels w) | Inr u \<Rightarrow> liveModels w))"
proof -
  obtain r0 w1 where rv: "resolveAndValidate env w = (r0, w1)"
    by (cases "resolveAndValidate env w")
  obtain rm wm where rm: "resolveModel env w = (rm, wm)" by (cases "resolveModel env w")
  from resolveAndValidate_world [OF rv] rm have w1: "w1 = wm" by simp
  note live = resolveModel_live [OF rm]
  from assms have run: "resolve_patch_save env (patches_of env request) w = (r, w')"
    by (simp add: perform_resolve_patch_save)
  show ?thesis
  proof (cases "userData_read env (stored w)")
    case (Inl e)
    from resolveModel_read_error [OF rm Inl] have "rm = Inl e" .
    with rv rm have "r0 = Inl e" by (simp add: resolveAndValidate_def)
    with run rv live Inl w1 show ?thesis by (auto simp: resolve_patch_save_def)
  next
    case (Inr c)
    with live w1 have created: "liveModels w1 = Suc (liveModels w)" by simp
    show ?thesis
    proof (cases r0)
      case failed: (Inl e)
      with run rv created Inr show ?thesis by (auto simp: resolve_patch_save_def)
    next
      case valid: (Inr model)
      show ?thesis
      proof (cases "patches_of env request model")
        case (Inl e)
        with run rv created Inr valid show ?thesis by (auto simp: resolve_patch_save_def)
      next
        case patched: (Inr model1)
        with run rv valid have "save env model1 w1 = (r, w')" by (simp add: resolve_patch_save_def)
        from save_live [OF this] created Inr show ?thesis by (simp split: sum.splits)
      qed
    qed
  qed
qed

text \<open>
  Claim C8, as amended. \<^verbatim>\<open>save\<close> releases the model after a write that succeeded, and
  leaves it registered when the write fails. For a whole operation: after a success the
  number of live models is what it was before; after a failure that follows the creation of
  the model (the read succeeded) one more model is live.
\<close>

theorem buffer_released_after_successful_write:
  "(save env model v = (r1, v') \<longrightarrow>
      liveModels v' = (case r1 of Inl e \<Rightarrow> liveModels v | Inr u \<Rightarrow> liveModels v - 1)) \<and>
   (perform env request w = (r, w') \<longrightarrow>
      liveModels w' =
        (case userData_read env (stored w) of
           Inl e \<Rightarrow> liveModels w
         | Inr c \<Rightarrow> (case r of Inl e \<Rightarrow> Suc (liveModels w) | Inr u \<Rightarrow> liveModels w)))"
  using save_live [of env model v r1 v'] perform_live [of env request w r w'] by blast

theorem buffer_released_after_successful_write_witness:
  "perform referenceCollaborators (RemoveKeybinding user_foo) (world_with (Some single_foo_document)) =
     (Inr (), \<lparr>stored = Some ''[]'', writeCalls = 1, liveModels = 0\<rparr>) \<and>
   liveModels (world_with (Some single_foo_document)) = 0 \<and>
   save referenceCollaborators (createModel referenceCollaborators ''[]'')
       \<lparr>stored = Some single_foo_document, writeCalls = 0, liveModels = 1\<rparr> =
     (Inr (), \<lparr>stored = Some ''[]'', writeCalls = 1, liveModels = 0\<rparr>)"
proof -
  let ?request = "RemoveKeybinding user_foo :: string list Request"
  let ?w = "world_with (Some single_foo_document)"
  let ?v = "\<lparr>stored = Some single_foo_document, writeCalls = 0, liveModels = 1\<rparr>"
  let ?w' = "\<lparr>stored = Some ''[]'', writeCalls = 1, liveModels = 0\<rparr>"
  have written: "perform referenceCollaborators ?request ?w = (Inr (), ?w')"
    by code_simp
  have saved: "save referenceCollaborators (createModel referenceCollaborators ''[]'') ?v = (Inr (), ?w')"
    by code_simp
  have "liveModels ?w' = liveModels ?v - 1 \<and> liveModels ?w' = liveModels ?w"
    using buffer_released_after_successful_write
      [of referenceCollaborators "createModel referenceCollaborators ''[]''" ?v "Inr ()" ?w'
          ?request ?w "Inr ()"]
      written saved
    by (simp add: world_with_def referenceCollaborators_def)
  with written saved show ?thesis by (simp add: world_with_def)
qed

text \<open>
  Claim C8 as stated fails: with a store whose write is rejected, the model created for the
  operation is still registered after the persist step.
\<close>

theorem buffer_leaked_when_write_fails:
  "perform failingWrite (RemoveKeybinding user_foo) (world_with (Some single_foo_document)) =
     (Inl WriteError, \<lparr>stored = Some single_foo_document, writeCalls = 1, liveModels = 1\<rparr>) \<and>
   liveModels (world_with (Some single_foo_document)) = 0 \<and>
   save failingWrite (createModel failingWrite ''[]'')
       \<lparr>stored = Some single_foo_document, writeCalls = 0, liveModels = 1\<rparr> =
     (Inl WriteError, \<lparr>stored = Some single_foo_document, writeCalls = 1, liveModels = 1\<rparr>)"
  by code_simp

section \<open>Validation\<close>

text \<open>
  What \<^verbatim>\<open>resolveAndValidate\<close> does when the read succeeds. The buffer holds the stored
  text, or \<open>[]\<close> for an absent or empty one, so it is never empty. The parse error is
  given exactly when that text has parse errors, and the invalid-shape error exactly when it
  parses without errors to a truthy value that is not an array: the shape is tested only
  under \<^verbatim>\<open>if (parsed.result)\<close>. An array is returned unchanged; a text that parses without
  errors to a falsy value (\<open>undefined\<close>, \<open>null\<close>, \<open>false\<close>, \<open>0\<close>, the empty string) is
  returned with the line terminator and \<open>[]\<close> appended.
\<close>

lemma resolveAndValidate_outcome:
  assumes "userData_read env (stored w) = Inr c"
  shows "let document = (if truthy_string c then the c else ''[]'');
             parsed = json_parse env document;
             r = fst (resolveAndValidate env w)
         in document \<noteq> [] \<and>
            (r = Inl ParseError \<longleftrightarrow> snd parsed \<noteq> 0) \<and>
            (r = Inl InvalidShapeError \<longleftrightarrow>
               snd parsed = 0 \<and> truthy (fst parsed) \<and> \<not> isArray (fst parsed)) \<and>
            (snd parsed = 0 \<and> isArray (fst parsed) \<longrightarrow> r = Inr (createModel env document)) \<and>
            (snd parsed = 0 \<and> \<not> truthy (fst parsed) \<longrightarrow>
               r = Inr (createModel env (document @ bufferEOL env @ ''[]'')))"
proof -
  define document where "document = (if truthy_string c then the c else ''[]'')"
  have nonempty: "document \<noteq> []"
    by (cases c) (auto simp: document_def)
  obtain rm wm where rm: "resolveModel env w = (rm, wm)" by (cases "resolveModel env w")
  from resolveModel_read_ok [OF rm assms] have model: "rm = Inr (createModel env document)"
    by (simp add: document_def)
  have array_truthy: "isArray (fst (json_parse env document)) \<Longrightarrow> truthy (fst (json_parse env document))"
    by (cases "fst (json_parse env document)" rule: isArray.cases) simp_all
  have appended: "applyEditsToBuffer
      \<lparr>offset = length document, edit_length = length (bufferEOL env @ ''[]''),
       content = bufferEOL env @ ''[]''\<rparr> (createModel env document) =
      createModel env (document @ bufferEOL env @ ''[]'')"
    by (simp add: applyEditsToBuffer_def createModel_def)
  have "fst (resolveAndValidate env w) =
      (if snd (json_parse env document) \<noteq> 0 then Inl ParseError
       else if truthy (fst (json_parse env document)) then
         (if \<not> isArray (fst (json_parse env document)) then Inl InvalidShapeError
          else Inr (createModel env document))
       else Inr (createModel env (document @ bufferEOL env @ ''[]'')))"
    using nonempty appended
    by (simp add: resolveAndValidate_def parse_def rm model Let_def createModel_def)
  with nonempty array_truthy show ?thesis
    unfolding Let_def document_def [symmetric] by auto
qed

lemma resolveAndValidate_outcome_examples:
  "fst (resolveAndValidate referenceCollaborators (world_with (Some ''[1, 2,''))) = Inl ParseError \<and>
   fst (resolveAndValidate referenceCollaborators (world_with (Some ''{}''))) = Inl InvalidShapeError \<and>
   fst (resolveAndValidate referenceCollaborators (world_with (Some single_foo_document))) =
     Inr (createModel referenceCollaborators single_foo_document) \<and>
   fst (resolveAndValidate referenceCollaborators (world_with (Some ''// no bindings yet''))) =
     Inr (createModel referenceCollaborators (''// no bindings yet'' @ [CHR 0x0A] @ ''[]''))"
proof -
  have read: "userData_read referenceCollaborators (stored (world_with (Some document))) = Inr (Some document)"
    for document
    by (simp add: referenceCollaborators_def world_with_def)
  have eol: "bufferEOL referenceCollaborators = [CHR 0x0A]"
    by (simp add: referenceCollaborators_def)
  have broken: "json_parse referenceCollaborators ''[1, 2,'' = (None, 1)"
    by code_simp
  have object: "json_parse referenceCollaborators ''{}'' = (Some (JObj []), 0)"
    by code_simp
  have array: "json_parse referenceCollaborators single_foo_document =
      (Some (JArr [JObj [(''key'', JStr ''ctrl+k''), (''command'', JStr ''foo'')]]), 0)"
    by code_simp
  have comment: "json_parse referenceCollaborators ''// no bindings yet'' = (None, 0)"
    by code_simp
  have filled: "single_foo_document \<noteq> []"
    by (simp add: single_foo_document_def)
  from resolveAndValidate_outcome [OF read, of "''[1, 2,''"] broken
  have "fst (resolveAndValidate referenceCollaborators (world_with (Some ''[1, 2,''))) = Inl ParseError"
    by (simp add: Let_def)
  moreover from resolveAndValidate_outcome [OF read, of "''{}''"] object
  have "fst (resolveAndValidate referenceCollaborators (world_with (Some ''{}''))) = Inl InvalidShapeError"
    by (simp add: Let_def)
  moreover from resolveAndValidate_outcome [OF read, of single_foo_document] array filled
  have "fst (resolveAndValidate referenceCollaborators (world_with (Some single_foo_document))) =
      Inr (createModel referenceCollaborators single_foo_document)"
    by (simp add: Let_def)
  moreover from resolveAndValidate_outcome [OF read, of "''// no bindings yet''"] comment eol
  have "fst (resolveAndValidate referenceCollaborators (world_with (Some ''// no bindings yet''))) =
      Inr (createModel referenceCollaborators (''// no bindings yet'' @ [CHR 0x0A] @ ''[]''))"
    by (simp add: Let_def)
  ultimately show ?thesis by simp
qed

text \<open>
  Claim C6 (the code at the failing input). The stored document \<open>0\<close> parses without
  errors and its top-level value is not an array, yet \<^verbatim>\<open>resolveAndValidate\<close> does not fail
  with the invalid-shape error: the value is falsy, so the test \<^verbatim>\<open>if (parsed.result)\<close>
  sends it past the \<^verbatim>\<open>isArray\<close> check into the branch for a document without a value,
  and the buffer is returned with the line terminator and \<open>[]\<close> appended. A remove request
  for a user binding then writes \<open>0\<close>, line feed, \<open>[]\<close> to the store, a text with a parse
  error, and the next request fails with the parse error. The same happens with \<open>false\<close>.
\<close>

theorem falsy_document_is_not_refused:
  "json_parse referenceCollaborators ''0'' = (Some (JNum 0), 0) \<and>
   \<not> isArray (Some (JNum 0)) \<and>
   fst (resolveAndValidate referenceCollaborators (world_with (Some ''0''))) =
     Inr (createModel referenceCollaborators (''0'' @ [CHR 0x0A] @ ''[]'')) \<and>
   perform referenceCollaborators (RemoveKeybinding user_foo) (world_with (Some ''0'')) =
     (Inr (), \<lparr>stored = Some (''0'' @ [CHR 0x0A] @ ''[]''), writeCalls = 1, liveModels = 0\<rparr>) \<and>
   perform referenceCollaborators (RemoveKeybinding user_foo)
       \<lparr>stored = Some (''0'' @ [CHR 0x0A] @ ''[]''), writeCalls = 1, liveModels = 0\<rparr> =
     (Inl ParseError,
      \<lparr>stored = Some (''0'' @ [CHR 0x0A] @ ''[]''), writeCalls = 1, liveModels = 1\<rparr>) \<and>
   json_parse referenceCollaborators ''false'' = (Some (JBool False), 0) \<and>
   fst (resolveAndValidate referenceCollaborators (world_with (Some ''false''))) =
     Inr (createModel referenceCollaborators (''false'' @ [CHR 0x0A] @ ''[]''))"
  by code_simp

text \<open>
  Whatever the store holds, the model \<^verbatim>\<open>resolveModel\<close> creates has a non-empty text, so the
  branch of \<^verbatim>\<open>resolveAndValidate\<close> that seeds an empty model is never taken.
\<close>

lemma resolveModel_never_empty:
  assumes "resolveModel env w = (Inr model, w1)"
  shows "getValue model \<noteq> []"
proof (cases "userData_read env (stored w)")
  case (Inl e)
  with assms show ?thesis by (simp add: resolveModel_def)
next
  case (Inr c)
  from resolveModel_read_ok [OF assms Inr]
  have "getValue model = (if truthy_string c then the c else ''[]'')"
    by (simp add: createModel_def)
  then show ?thesis by (cases c) auto
qed

text \<open>
  Claim C5 (the code at the failing input). With nothing, or the empty text, in the store,
  \<^verbatim>\<open>resolveModel\<close> creates the model from \<open>[]\<close>, and \<^verbatim>\<open>resolveAndValidate\<close> returns that
  model as it is: the text is \<open>[]\<close> without the placeholder comment. The seeding branch
  would have produced \<^verbatim>\<open>getEmptyContent\<close>, which parses to the empty array.
\<close>

theorem empty_store_is_not_seeded:
  "fst (resolveAndValidate referenceCollaborators (world_with None)) =
     Inr (createModel referenceCollaborators ''[]'') \<and>
   fst (resolveAndValidate referenceCollaborators (world_with (Some []))) =
     Inr (createModel referenceCollaborators ''[]'') \<and>
   getValue (createModel referenceCollaborators ''[]'') \<noteq>
     getEmptyContent (bufferEOL referenceCollaborators) \<and>
   json_parse referenceCollaborators (getEmptyContent (bufferEOL referenceCollaborators)) =
     (Some (JArr []), 0)"
  by code_simp

section \<open>Negation entries for default bindings\<close>

lemma elements_entries:
  "elements env model = Some xs \<Longrightarrow> entries_in env model = Some xs"
  by (auto simp: elements_def entries_in_def split: option.splits json.splits)

lemma removeDefaultKeybinding_appends:
  assumes "resolvedKeybinding keybindingItem = Some (Some keyLabel)" and "keyLabel \<noteq> []"
    and "appends_element env model (negation_entry env keybindingItem keyLabel)"
  shows "\<exists>model1 xs. removeDefaultKeybinding env keybindingItem model = Inr model1 \<and>
           elements env model = Some xs \<and>
           elements env model1 = Some (xs @ [negation_entry env keybindingItem keyLabel])"
  using assms
  by (auto simp: removeDefaultKeybinding_def appends_element_def split: sum.splits option.splits)

lemma removeDefaultKeybinding_without_label:
  assumes "\<not> truthy_string (case resolvedKeybinding keybindingItem of
                               Some userSettingsLabel \<Rightarrow> userSettingsLabel
                             | None \<Rightarrow> None)"
  shows "removeDefaultKeybinding env keybindingItem model = Inr model"
  using assms by (simp add: removeDefaultKeybinding_def)

lemma negation_entry_shape:
  "negation_entry env keybindingItem keyLabel =
     JObj ([(''key'', JStr keyLabel)] @
           (case item_command keybindingItem of
              None \<Rightarrow> []
            | Some commandId \<Rightarrow>
                if commandId = [] then [] else [(''command'', JStr (CHR ''-'' # commandId))]) @
           (case item_when keybindingItem of
              None \<Rightarrow> []
            | Some expr \<Rightarrow>
                if serialize env expr = [] then [] else [(''when'', JStr (serialize env expr))]))"
  by (simp add: negation_entry_def asObject_def split: option.splits)

lemma elements_text:
  "getValue model = getValue model' \<Longrightarrow> elements env model = elements env model'"
  by (simp add: elements_def)

lemma save_reference:
  "save referenceCollaborators model w =
     (Inr (), w\<lparr>stored := Some (getValue model), writeCalls := Suc (writeCalls w),
                liveModels := liveModels w - 1\<rparr>)"
  by (simp add: save_def referenceCollaborators_def)

text \<open>
  Claim C1, as amended. Let the item be a default binding and let the validation succeed
  with a model. The key label is the user-settings label of the item's resolved keybinding;
  there is none when the item has no resolved keybinding, or when the label is \<open>null\<close> or
  empty.

  With a key label: a remove request hands to \<^verbatim>\<open>save\<close> a model whose array is the validated
  array followed by exactly one negation entry. An assign request on a parsed array, once the
  matcher has returned an index and the update or append of the override entry has given the
  model \<open>updated\<close>, hands to \<^verbatim>\<open>save\<close> a model whose array is the array of \<open>updated\<close>
  followed by the negation entry; where no user entry matches, \<open>updated\<close> holds the
  validated array followed by the override entry. No element is deleted.

  Without a key label nothing is appended: a remove request hands the validated model to
  \<^verbatim>\<open>save\<close> as it is, and an assign request hands over \<open>updated\<close>.

  Where the matcher throws (an element of the array is \<open>null\<close>, say), the assign request
  fails with that error and nothing is saved.

  The negation entry is \<open>{key: label, command: "-" + command, when: serialized when}\<close>;
  \<open>command\<close> is left out when the item's command is \<open>null\<close> or empty, \<open>when\<close> is left
  out when the item has none or it serializes to the empty string. The append is the patch
  builder's: its contract for the path \<open>[-1]\<close> at the buffers concerned is a hypothesis.
\<close>

theorem default_binding_gets_negation_entry:
  assumes "isDefault keybindingItem"
    and "resolveAndValidate env w = (Inr model, w1)"
  shows "(resolvedKeybinding keybindingItem = Some (Some keyLabel) \<and> keyLabel \<noteq> [] \<and>
          appends_element env model (negation_entry env keybindingItem keyLabel) \<longrightarrow>
            (\<exists>model1 xs.
               doRemoveKeybinding env keybindingItem w = save env model1 w1 \<and>
               elements env model = Some xs \<and>
               elements env model1 = Some (xs @ [negation_entry env keybindingItem keyLabel]))) \<and>
         (resolvedKeybinding keybindingItem = Some (Some keyLabel) \<and> keyLabel \<noteq> [] \<and>
          elements env model = Some entries \<and>
          findUserKeybindingEntryIndex_parsed env keybindingItem entries = Inr found \<and>
          updateKeybinding env keybindingItem newKey whenText model found = Inr updated \<and>
          appends_element env updated (negation_entry env keybindingItem keyLabel) \<longrightarrow>
            (\<exists>model2 ys.
               doEditKeybinding env keybindingItem newKey whenText w = save env model2 w1 \<and>
               elements env updated = Some ys \<and>
               elements env model2 = Some (ys @ [negation_entry env keybindingItem keyLabel]))) \<and>
         (appends_element env model (asObject newKey (item_command keybindingItem) whenText False) \<longrightarrow>
            (\<exists>appended xs.
               updateKeybinding env keybindingItem newKey whenText model (- 1) = Inr appended \<and>
               elements env model = Some xs \<and>
               elements env appended =
                 Some (xs @ [asObject newKey (item_command keybindingItem) whenText False]))) \<and>
         (\<not> truthy_string (case resolvedKeybinding keybindingItem of
                              Some userSettingsLabel \<Rightarrow> userSettingsLabel
                            | None \<Rightarrow> None) \<longrightarrow>
            doRemoveKeybinding env keybindingItem w = save env model w1) \<and>
         (\<not> truthy_string (case resolvedKeybinding keybindingItem of
                              Some userSettingsLabel \<Rightarrow> userSettingsLabel
                            | None \<Rightarrow> None) \<and>
          elements env model = Some entries \<and>
          findUserKeybindingEntryIndex_parsed env keybindingItem entries = Inr found \<and>
          updateKeybinding env keybindingItem newKey whenText model found = Inr updated \<longrightarrow>
            doEditKeybinding env keybindingItem newKey whenText w = save env updated w1) \<and>
         (elements env model = Some entries \<and>
          findUserKeybindingEntryIndex_parsed env keybindingItem entries = Inl thrown \<longrightarrow>
            doEditKeybinding env keybindingItem newKey whenText w = (Inl thrown, w1)) \<and>
         negation_entry env keybindingItem keyLabel =
           JObj ([(''key'', JStr keyLabel)] @
                 (case item_command keybindingItem of
                    None \<Rightarrow> []
                  | Some commandId \<Rightarrow>
                      if commandId = [] then []
                      else [(''command'', JStr (CHR ''-'' # commandId))]) @
                 (case item_when keybindingItem of
                    None \<Rightarrow> []
                  | Some expr \<Rightarrow>
                      if serialize env expr = [] then []
                      else [(''when'', JStr (serialize env expr))]))"
proof (intro conjI impI)
  assume label: "resolvedKeybinding keybindingItem = Some (Some keyLabel) \<and> keyLabel \<noteq> [] \<and>
      appends_element env model (negation_entry env keybindingItem keyLabel)"
  then have "resolvedKeybinding keybindingItem = Some (Some keyLabel)" and "keyLabel \<noteq> []"
    and "appends_element env model (negation_entry env keybindingItem keyLabel)"
    by simp_all
  from removeDefaultKeybinding_appends [OF this]
  obtain model1 xs where "removeDefaultKeybinding env keybindingItem model = Inr model1"
    and "elements env model = Some xs"
    and "elements env model1 = Some (xs @ [negation_entry env keybindingItem keyLabel])"
    by blast
  with assms show "\<exists>model1 xs.
      doRemoveKeybinding env keybindingItem w = save env model1 w1 \<and>
      elements env model = Some xs \<and>
      elements env model1 = Some (xs @ [negation_entry env keybindingItem keyLabel])"
    by (auto simp: doRemoveKeybinding_def resolve_patch_save_def doRemoveKeybinding_patches_def)
next
  assume step: "resolvedKeybinding keybindingItem = Some (Some keyLabel) \<and> keyLabel \<noteq> [] \<and>
      elements env model = Some entries \<and>
      findUserKeybindingEntryIndex_parsed env keybindingItem entries = Inr found \<and>
      updateKeybinding env keybindingItem newKey whenText model found = Inr updated \<and>
      appends_element env updated (negation_entry env keybindingItem keyLabel)"
  then have label: "resolvedKeybinding keybindingItem = Some (Some keyLabel)" and "keyLabel \<noteq> []"
    and "appends_element env updated (negation_entry env keybindingItem keyLabel)"
    by simp_all
  from removeDefaultKeybinding_appends [OF this]
  obtain model2 ys where appended: "removeDefaultKeybinding env keybindingItem updated = Inr model2"
    and "elements env updated = Some ys"
    and "elements env model2 = Some (ys @ [negation_entry env keybindingItem keyLabel])"
    by blast
  moreover from step have "entries_in env model = Some entries"
    by (simp add: elements_entries)
  with assms label step appended
  have "doEditKeybinding env keybindingItem newKey whenText w = save env model2 w1"
    by (simp add: doEditKeybinding_def resolve_patch_save_def doEditKeybinding_patches_def)
  ultimately show "\<exists>model2 ys.
      doEditKeybinding env keybindingItem newKey whenText w = save env model2 w1 \<and>
      elements env updated = Some ys \<and>
      elements env model2 = Some (ys @ [negation_entry env keybindingItem keyLabel])"
    by blast
next
  assume "appends_element env model (asObject newKey (item_command keybindingItem) whenText False)"
  then show "\<exists>appended xs.
      updateKeybinding env keybindingItem newKey whenText model (- 1) = Inr appended \<and>
      elements env model = Some xs \<and>
      elements env appended = Some (xs @ [asObject newKey (item_command keybindingItem) whenText False])"
    by (auto simp: updateKeybinding_def appends_element_def split: sum.splits option.splits)
next
  assume "\<not> truthy_string (case resolvedKeybinding keybindingItem of
                              Some userSettingsLabel \<Rightarrow> userSettingsLabel
                            | None \<Rightarrow> None)"
  from removeDefaultKeybinding_without_label [OF this] assms
  show "doRemoveKeybinding env keybindingItem w = save env model w1"
    by (simp add: doRemoveKeybinding_def resolve_patch_save_def doRemoveKeybinding_patches_def)
next
  assume step: "\<not> truthy_string (case resolvedKeybinding keybindingItem of
                              Some userSettingsLabel \<Rightarrow> userSettingsLabel
                            | None \<Rightarrow> None) \<and>
      elements env model = Some entries \<and>
      findUserKeybindingEntryIndex_parsed env keybindingItem entries = Inr found \<and>
      updateKeybinding env keybindingItem newKey whenText model found = Inr updated"
  then have "removeDefaultKeybinding env keybindingItem updated = Inr updated"
    by (simp add: removeDefaultKeybinding_without_label)
  moreover from step have "entries_in env model = Some entries"
    by (simp add: elements_entries)
  ultimately show "doEditKeybinding env keybindingItem newKey whenText w = save env updated w1"
    using assms step
    by (simp add: doEditKeybinding_def resolve_patch_save_def doEditKeybinding_patches_def)
next
  assume step: "elements env model = Some entries \<and>
      findUserKeybindingEntryIndex_parsed env keybindingItem entries = Inl thrown"
  then have "entries_in env model = Some entries"
    by (simp add: elements_entries)
  with assms step
  show "doEditKeybinding env keybindingItem newKey whenText w = (Inl thrown, w1)"
    by (simp add: doEditKeybinding_def resolve_patch_save_def doEditKeybinding_patches_def)
next
  show "negation_entry env keybindingItem keyLabel =
      JObj ([(''key'', JStr keyLabel)] @
            (case item_command keybindingItem of
               None \<Rightarrow> []
             | Some commandId \<Rightarrow>
                 if commandId = [] then []
                 else [(''command'', JStr (CHR ''-'' # commandId))]) @
            (case item_when keybindingItem of
               None \<Rightarrow> []
             | Some expr \<Rightarrow>
                 if serialize env expr = [] then []
                 else [(''when'', JStr (serialize env expr))]))"
    by (rule negation_entry_shape)
qed

theorem default_binding_gets_negation_entry_witness:
  "doRemoveKeybinding referenceCollaborators default_bar (world_with (Some ''[]'')) =
     (Inr (), \<lparr>stored = Some bar_negation_document, writeCalls = 1, liveModels = 0\<rparr>) \<and>
   doEditKeybinding referenceCollaborators default_bar ''ctrl+j'' (Some ''editorFocus'')
       (world_with (Some ''[]'')) =
     (Inr (), \<lparr>stored = Some bar_override_document, writeCalls = 1, liveModels = 0\<rparr>) \<and>
   negation_entry referenceCollaborators default_bar ''ctrl+d'' =
     JObj [(''key'', JStr ''ctrl+d''), (''command'', JStr ''-bar''), (''when'', JStr ''editorFocus'')] \<and>
   elements referenceCollaborators (createModel referenceCollaborators bar_negation_document) =
     Some [negation_entry referenceCollaborators default_bar ''ctrl+d''] \<and>
   elements referenceCollaborators (createModel referenceCollaborators bar_override_document) =
     Some [asObject ''ctrl+j'' (Some ''bar'') (Some ''editorFocus'') False,
           negation_entry referenceCollaborators default_bar ''ctrl+d''] \<and>
   doRemoveKeybinding referenceCollaborators default_unbound
       (world_with (Some single_foo_document)) =
     (Inr (), \<lparr>stored = Some single_foo_document, writeCalls = 1, liveModels = 0\<rparr>) \<and>
   doEditKeybinding referenceCollaborators default_unbound ''ctrl+j'' None
       (world_with (Some single_foo_document)) =
     (Inr (), \<lparr>stored = Some foo_bar_document, writeCalls = 1, liveModels = 0\<rparr>) \<and>
   doEditKeybinding referenceCollaborators default_bar ''ctrl+j'' None
       (world_with (Some ''[null]'')) =
     (Inl TypeError, \<lparr>stored = Some ''[null]'', writeCalls = 0, liveModels = 1\<rparr>)"
proof -
  let ?env = referenceCollaborators
  let ?empty = "createModel ?env ''[]''"
  let ?w = "world_with (Some ''[]'')"
  let ?w1 = "\<lparr>stored = Some ''[]'', writeCalls = 0, liveModels = 1\<rparr>"
  let ?negation = "negation_entry ?env default_bar ''ctrl+d''"
  let ?override = "asObject ''ctrl+j'' (Some ''bar'') (Some ''editorFocus'') False"
  let ?updated = "createModel ?env bar_single_document"
  let ?single = "createModel ?env single_foo_document"
  let ?v = "world_with (Some single_foo_document)"
  let ?v1 = "\<lparr>stored = Some single_foo_document, writeCalls = 0, liveModels = 1\<rparr>"
  let ?foo = "[JObj [(''key'', JStr ''ctrl+k''), (''command'', JStr ''foo'')]]"
  let ?u = "world_with (Some ''[null]'')"
  let ?u1 = "\<lparr>stored = Some ''[null]'', writeCalls = 0, liveModels = 1\<rparr>"
  have default: "isDefault default_bar"
    by (simp add: default_bar_def)
  have valid: "resolveAndValidate ?env ?w = (Inr ?empty, ?w1)"
    by code_simp
  have removed: "doRemoveKeybinding ?env default_bar ?w =
      (Inr (), \<lparr>stored = Some bar_negation_document, writeCalls = 1, liveModels = 0\<rparr>)"
    by code_simp
  have edited: "doEditKeybinding ?env default_bar ''ctrl+j'' (Some ''editorFocus'') ?w =
      (Inr (), \<lparr>stored = Some bar_override_document, writeCalls = 1, liveModels = 0\<rparr>)"
    by code_simp
  have blank: "elements ?env ?empty = Some []"
    by code_simp
  have not_found: "findUserKeybindingEntryIndex_parsed ?env default_bar [] = Inr (- 1)"
    by code_simp
  have update: "updateKeybinding ?env default_bar ''ctrl+j'' (Some ''editorFocus'') ?empty (- 1) =
      Inr ?updated"
    by code_simp
  have with_label:
    "resolvedKeybinding default_bar = Some (Some ''ctrl+d'') \<and> ''ctrl+d'' \<noteq> [] \<and>
     appends_element ?env ?empty ?negation"
    by code_simp
  have with_label_assign:
    "resolvedKeybinding default_bar = Some (Some ''ctrl+d'') \<and> ''ctrl+d'' \<noteq> [] \<and>
     elements ?env ?empty = Some [] \<and>
     findUserKeybindingEntryIndex_parsed ?env default_bar [] = Inr (- 1) \<and>
     updateKeybinding ?env default_bar ''ctrl+j'' (Some ''editorFocus'') ?empty (- 1) =
       Inr ?updated \<and>
     appends_element ?env ?updated ?negation"
    by code_simp
  have appendable_override:
    "appends_element ?env ?empty
       (asObject ''ctrl+j'' (item_command default_bar) (Some ''editorFocus'') False)"
    by code_simp
  note claim = default_binding_gets_negation_entry [OF default valid,
      where keyLabel = "''ctrl+d''" and entries = "[]" and found = "- 1"
        and newKey = "''ctrl+j''" and whenText = "Some ''editorFocus''" and updated = ?updated]
  note removal = claim [THEN conjunct1, rule_format]
  note assignment = claim [THEN conjunct2, THEN conjunct1, rule_format]
  note override = claim [THEN conjunct2, THEN conjunct2, THEN conjunct1, rule_format]
  note entry_shape = claim [THEN conjunct2, THEN conjunct2, THEN conjunct2, THEN conjunct2,
      THEN conjunct2, THEN conjunct2]
  from removal [OF with_label] obtain model1 xs where
    save1: "doRemoveKeybinding ?env default_bar ?w = save ?env model1 ?w1"
    and "elements ?env ?empty = Some xs"
    and "elements ?env model1 = Some (xs @ [?negation])"
    by blast
  with blank have one: "elements ?env model1 = Some [?negation]"
    by simp
  from save1 removed have "getValue model1 = bar_negation_document"
    by (simp add: save_reference)
  then have "elements ?env (createModel ?env bar_negation_document) = elements ?env model1"
    by (intro elements_text) (simp add: createModel_def)
  with one have first: "elements ?env (createModel ?env bar_negation_document) = Some [?negation]"
    by simp
  from override [OF appendable_override] update blank
  have overridden: "elements ?env ?updated = Some [?override]"
    by (auto simp: default_bar_def)
  from assignment [OF with_label_assign] obtain model2 ys where
    save2: "doEditKeybinding ?env default_bar ''ctrl+j'' (Some ''editorFocus'') ?w =
      save ?env model2 ?w1"
    and "elements ?env ?updated = Some ys"
    and "elements ?env model2 = Some (ys @ [?negation])"
    by blast
  with overridden have two: "elements ?env model2 = Some [?override, ?negation]"
    by simp
  from save2 edited have "getValue model2 = bar_override_document"
    by (simp add: save_reference)
  then have "elements ?env (createModel ?env bar_override_document) = elements ?env model2"
    by (intro elements_text) (simp add: createModel_def)
  with two have second:
    "elements ?env (createModel ?env bar_override_document) = Some [?override, ?negation]"
    by simp
  have "item_command default_bar = Some ''bar''" "item_when default_bar = Some [''editorFocus'']"
    "serialize ?env [''editorFocus''] = ''editorFocus''"
    by code_simp+
  with entry_shape
  have shape: "?negation =
      JObj [(''key'', JStr ''ctrl+d''), (''command'', JStr ''-bar''), (''when'', JStr ''editorFocus'')]"
    by simp
  have unbound: "isDefault default_unbound"
    by (simp add: default_unbound_def)
  have valid_single: "resolveAndValidate ?env ?v = (Inr ?single, ?v1)"
    by code_simp
  have no_label: "\<not> truthy_string (case resolvedKeybinding default_unbound of
                                     Some userSettingsLabel \<Rightarrow> userSettingsLabel
                                   | None \<Rightarrow> None)"
    by code_simp
  have no_label_assign:
    "\<not> truthy_string (case resolvedKeybinding default_unbound of
                        Some userSettingsLabel \<Rightarrow> userSettingsLabel
                      | None \<Rightarrow> None) \<and>
     elements ?env ?single = Some ?foo \<and>
     findUserKeybindingEntryIndex_parsed ?env default_unbound ?foo = Inr (- 1) \<and>
     updateKeybinding ?env default_unbound ''ctrl+j'' None ?single (- 1) =
       Inr (createModel ?env foo_bar_document)"
    by code_simp
  note unlabelled = default_binding_gets_negation_entry [OF unbound valid_single,
      where entries = ?foo and found = "- 1" and newKey = "''ctrl+j''" and whenText = None
        and updated = "createModel ?env foo_bar_document"]
  note plain_removal = unlabelled [THEN conjunct2, THEN conjunct2, THEN conjunct2,
      THEN conjunct1, rule_format]
  note plain_assignment = unlabelled [THEN conjunct2, THEN conjunct2, THEN conjunct2,
      THEN conjunct2, THEN conjunct1, rule_format]
  from plain_removal [OF no_label]
  have third: "doRemoveKeybinding ?env default_unbound ?v =
      (Inr (), \<lparr>stored = Some single_foo_document, writeCalls = 1, liveModels = 0\<rparr>)"
    by (simp add: save_reference createModel_def)
  from plain_assignment [OF no_label_assign]
  have fourth: "doEditKeybinding ?env default_unbound ''ctrl+j'' None ?v =
      (Inr (), \<lparr>stored = Some foo_bar_document, writeCalls = 1, liveModels = 0\<rparr>)"
    by (simp add: save_reference createModel_def)
  have valid_null: "resolveAndValidate ?env ?u = (Inr (createModel ?env ''[null]''), ?u1)"
    by code_simp
  have throws:
    "elements ?env (createModel ?env ''[null]'') = Some [JNull] \<and>
     findUserKeybindingEntryIndex_parsed ?env default_bar [JNull] = Inl TypeError"
    by code_simp
  note thrown = default_binding_gets_negation_entry [OF default valid_null,
      where entries = "[JNull]" and thrown = TypeError and newKey = "''ctrl+j''"
        and whenText = None,
      THEN conjunct2, THEN conjunct2, THEN conjunct2, THEN conjunct2, THEN conjunct2,
      THEN conjunct1, rule_format]
  from thrown [OF throws]
  have fifth: "doEditKeybinding ?env default_bar ''ctrl+j'' None ?u = (Inl TypeError, ?u1)" .
  from removed edited shape first second third fourth fifth show ?thesis by simp
qed

text \<open>
  Claim C1 as stated fails for a remove request: a default binding without a resolved
  keybinding has no key label, nothing is appended, and the document is written back as it
  was.
\<close>

theorem unbound_default_gets_no_negation_entry:
  "isDefault default_unbound \<and>
   doRemoveKeybinding referenceCollaborators default_unbound (world_with (Some single_foo_document)) =
     (Inr (), \<lparr>stored = Some single_foo_document, writeCalls = 1, liveModels = 0\<rparr>)"
  by code_simp

section \<open>Reset\<close>

lemma unassigned_loop_append:
  "findUnassignedDefaultKeybindingEntryIndex_loop keybindingItem (entries @ [keybinding]) index =
     findUnassignedDefaultKeybindingEntryIndex_loop keybindingItem entries index @
     (if command keybinding = negated_command (item_command keybindingItem)
      then [index + length entries] else [])"
  by (induction entries arbitrary: index) auto

lemma remove_nth_middle: "remove_nth (length ys) (ys @ y # zs) = ys @ zs"
  by (simp add: remove_nth_def)

lemma removal_loop:
  assumes "elements env model = Some (ys @ zs)"
    and "removes_elements env model
           (rev (findUnassignedDefaultKeybindingEntryIndex_loop keybindingItem (map entry_of ys) 0))"
  shows "\<exists>model1.
           removeUnassignedDefaultKeybinding_loop env model
             (rev (findUnassignedDefaultKeybindingEntryIndex_loop keybindingItem (map entry_of ys) 0)) =
             Inr model1 \<and>
           elements env model1 =
             Some (filter (\<lambda>x. command (entry_of x) \<noteq> negated_command (item_command keybindingItem)) ys
                   @ zs)"
  using assms
proof (induction ys arbitrary: zs model rule: rev_induct)
  case Nil
  then show ?case by simp
next
  case (snoc y ys)
  show ?case
  proof (cases "command (entry_of y) = negated_command (item_command keybindingItem)")
    case True
    let ?rest = "rev (findUnassignedDefaultKeybindingEntryIndex_loop keybindingItem (map entry_of ys) 0)"
    from True have indices:
      "rev (findUnassignedDefaultKeybindingEntryIndex_loop keybindingItem (map entry_of (ys @ [y])) 0) =
         length ys # ?rest"
      by (simp add: unassigned_loop_append)
    from snoc.prems(2) have chain: "removes_elements env model (length ys # ?rest)"
      by (simp only: indices)
    then obtain edit where edit:
      "first_edit (setProperty env (getValue model) [Index (int (length ys))] None
         (formattingOptions model)) = Inr edit"
      and rest: "removes_elements env (applyEditsToBuffer edit model) ?rest"
      and one: "removes_element env model (length ys)"
      by (auto split: sum.splits)
    from one edit snoc.prems(1)
    have "elements env (applyEditsToBuffer edit model) = Some (remove_nth (length ys) (ys @ y # zs))"
      by (simp add: removes_element_def)
    then have "elements env (applyEditsToBuffer edit model) = Some (ys @ zs)"
      by (simp only: remove_nth_middle)
    from snoc.IH [OF this rest] True edit show ?thesis
      by (simp only: indices) auto
  next
    case False
    then have indices:
      "findUnassignedDefaultKeybindingEntryIndex_loop keybindingItem (map entry_of (ys @ [y])) 0 =
         findUnassignedDefaultKeybindingEntryIndex_loop keybindingItem (map entry_of ys) 0"
      by (simp add: unassigned_loop_append)
    from snoc.prems(2) have chain:
      "removes_elements env model
         (rev (findUnassignedDefaultKeybindingEntryIndex_loop keybindingItem (map entry_of ys) 0))"
      by (simp only: indices)
    from snoc.prems(1) have "elements env model = Some (ys @ y # zs)" by simp
    from snoc.IH [OF this chain] obtain model1 where
      "removeUnassignedDefaultKeybinding_loop env model
         (rev (findUnassignedDefaultKeybindingEntryIndex_loop keybindingItem (map entry_of ys) 0)) =
         Inr model1"
      and "elements env model1 =
         Some (filter (\<lambda>x. command (entry_of x) \<noteq> negated_command (item_command keybindingItem)) ys
               @ y # zs)"
      by blast
    with False show ?thesis
      unfolding indices by auto
  qed
qed

lemma matcher_range:
  "findUserKeybindingEntryIndex env keybindingItem entries = - 1 \<or>
   (0 \<le> findUserKeybindingEntryIndex env keybindingItem entries \<and>
    findUserKeybindingEntryIndex env keybindingItem entries < int (length entries))"
  using loop_range [of env keybindingItem entries 0]
  by (simp add: findUserKeybindingEntryIndex_def)

lemma list_all_remove_nth: "list_all P xs \<Longrightarrow> list_all P (remove_nth i xs)"
  by (auto simp: remove_nth_def list_all_iff dest: in_set_takeD in_set_dropD)

lemma removeUserKeybinding_removes:
  assumes "elements env model = Some xs" and "list_all keybinding_json xs"
    and "findUserKeybindingEntryIndex env keybindingItem (map entry_of xs) = found"
    and "found \<noteq> - 1 \<Longrightarrow> removes_element env model (nat found)"
  shows "\<exists>model1. removeUserKeybinding env keybindingItem model = Inr model1 \<and>
           elements env model1 = Some (if found = - 1 then xs else remove_nth (nat found) xs)"
proof -
  from assms(2,3)
  have parsed: "findUserKeybindingEntryIndex_parsed env keybindingItem xs = Inr found"
    by (simp add: findUserKeybindingEntryIndex_parsed_typed)
  show ?thesis
  proof (cases "found = - 1")
    case True
    with assms(1) parsed show ?thesis
      by (simp add: removeUserKeybinding_def elements_entries)
  next
    case False
    with matcher_range [of env keybindingItem "map entry_of xs"] assms(3)
    have "int (nat found) = found" by auto
    with assms(1,4) parsed False show ?thesis
      by (auto simp: removeUserKeybinding_def elements_entries removes_element_def Let_def
               split: sum.splits)
  qed
qed

text \<open>
  Claim C3, as amended. For a document whose elements are keybinding entries and a reset
  request on a user-defined keybinding, the model handed to \<^verbatim>\<open>save\<close> holds the validated
  array without the first entry that matches the item's command and \<open>when\<close> (if there is
  one) and without every entry whose command is \<open>-\<close> followed by the item's command,
  whatever its \<open>when\<close>; all other entries are kept in order, also other entries with the
  item's command. The removals are the patch builder's: its contract for removing an element
  at the buffers concerned is a hypothesis.
\<close>

theorem reset_removes_first_match_and_every_negation:
  assumes "\<not> isDefault keybindingItem"
    and "resolveAndValidate env w = (Inr model, w1)"
    and "elements env model = Some xs" and "list_all keybinding_json xs"
    and "findUserKeybindingEntryIndex env keybindingItem (map entry_of xs) = found"
    and "kept = (if found = - 1 then xs else remove_nth (nat found) xs)"
    and "found \<noteq> - 1 \<Longrightarrow> removes_element env model (nat found)"
    and "\<And>model1. removeUserKeybinding env keybindingItem model = Inr model1 \<Longrightarrow>
           removes_elements env model1
             (rev (findUnassignedDefaultKeybindingEntryIndex keybindingItem (map entry_of kept)))"
  shows "\<exists>model2.
           doResetKeybinding env keybindingItem w = save env model2 w1 \<and>
           elements env model2 =
             Some (filter (\<lambda>x. command (entry_of x) \<noteq> negated_command (item_command keybindingItem))
                     kept) \<and>
           (\<forall>x \<in> set (the (elements env model2)).
              command (entry_of x) \<noteq> negated_command (item_command keybindingItem))"
proof -
  from removeUserKeybinding_removes [OF assms(3,4,5,7)] assms(6)
  obtain model1 where first: "removeUserKeybinding env keybindingItem model = Inr model1"
    and kept: "elements env model1 = Some kept"
    by auto
  from assms(4,6) have typed: "list_all keybinding_json kept"
    by (simp add: list_all_remove_nth)
  from kept have kept': "elements env model1 = Some (kept @ [])" by simp
  from assms(8) [OF first]
  have "removes_elements env model1
      (rev (findUnassignedDefaultKeybindingEntryIndex_loop keybindingItem (map entry_of kept) 0))"
    by (simp add: findUnassignedDefaultKeybindingEntryIndex_def)
  from removal_loop [OF kept' this]
  obtain model2 where loop:
    "removeUnassignedDefaultKeybinding_loop env model1
       (rev (findUnassignedDefaultKeybindingEntryIndex_loop keybindingItem (map entry_of kept) 0)) =
       Inr model2"
    and result: "elements env model2 =
       Some (filter (\<lambda>x. command (entry_of x) \<noteq> negated_command (item_command keybindingItem)) kept)"
    by auto
  from loop kept typed
  have "removeUnassignedDefaultKeybinding env keybindingItem model1 = Inr model2"
    by (simp add: removeUnassignedDefaultKeybinding_def elements_entries
          findUnassignedDefaultKeybindingEntryIndex_parsed_typed
          findUnassignedDefaultKeybindingEntryIndex_def)
  with first assms(1,2)
  have "doResetKeybinding env keybindingItem w = save env model2 w1"
    by (simp add: doResetKeybinding_def resolve_patch_save_def doResetKeybinding_patches_def)
  with result show ?thesis by auto
qed

theorem reset_removes_first_match_and_every_negation_witness:
  "doResetKeybinding referenceCollaborators foo_when_a_b (world_with (Some three_entries_document)) =
     (Inr (), \<lparr>stored = Some after_reset_document, writeCalls = 1, liveModels = 0\<rparr>) \<and>
   elements referenceCollaborators (createModel referenceCollaborators three_entries_document) =
     Some [JObj [(''key'', JStr ''ctrl+k''), (''command'', JStr ''foo''), (''when'', JStr ''b&&a'')],
           JObj [(''key'', JStr ''ctrl+j''), (''command'', JStr ''-foo'')],
           JObj [(''key'', JStr ''ctrl+h''), (''command'', JStr ''foo'')]] \<and>
   negated_command (item_command foo_when_a_b) = ''-foo'' \<and>
   elements referenceCollaborators (createModel referenceCollaborators after_reset_document) =
     Some [JObj [(''key'', JStr ''ctrl+h''), (''command'', JStr ''foo'')]]"
proof -
  let ?env = referenceCollaborators
  let ?model = "createModel ?env three_entries_document"
  let ?w = "world_with (Some three_entries_document)"
  let ?w1 = "\<lparr>stored = Some three_entries_document, writeCalls = 0, liveModels = 1\<rparr>"
  let ?xs = "[JObj [(''key'', JStr ''ctrl+k''), (''command'', JStr ''foo''), (''when'', JStr ''b&&a'')],
              JObj [(''key'', JStr ''ctrl+j''), (''command'', JStr ''-foo'')],
              JObj [(''key'', JStr ''ctrl+h''), (''command'', JStr ''foo'')]]"
  let ?kept = "if (0::int) = - 1 then ?xs else remove_nth (nat 0) ?xs"
  have user: "\<not> isDefault foo_when_a_b"
    by (simp add: foo_when_a_b_def)
  have valid: "resolveAndValidate ?env ?w = (Inr ?model, ?w1)"
    by code_simp
  have parsed: "elements ?env ?model = Some ?xs"
    by code_simp
  have typed: "list_all keybinding_json ?xs"
    by code_simp
  have found: "findUserKeybindingEntryIndex ?env foo_when_a_b (map entry_of ?xs) = 0"
    by code_simp
  have match_removable: "removes_element ?env ?model (nat 0)"
    by code_simp
  have negations_removable:
    "removes_elements ?env (projr (removeUserKeybinding ?env foo_when_a_b ?model))
       (rev (findUnassignedDefaultKeybindingEntryIndex foo_when_a_b (map entry_of ?kept)))"
    by code_simp
  have negations_removable':
    "removes_elements ?env model1
       (rev (findUnassignedDefaultKeybindingEntryIndex foo_when_a_b (map entry_of ?kept)))"
    if "removeUserKeybinding ?env foo_when_a_b ?model = Inr model1" for model1
    using negations_removable that by simp
  have reset: "doResetKeybinding ?env foo_when_a_b ?w =
      (Inr (), \<lparr>stored = Some after_reset_document, writeCalls = 1, liveModels = 0\<rparr>)"
    by code_simp
  have negated: "negated_command (item_command foo_when_a_b) = ''-foo''"
    by code_simp
  have remaining:
    "filter (\<lambda>x. command (entry_of x) \<noteq> negated_command (item_command foo_when_a_b)) ?kept =
       [JObj [(''key'', JStr ''ctrl+h''), (''command'', JStr ''foo'')]]"
    by code_simp
  from reset_removes_first_match_and_every_negation
    [OF user valid parsed typed found refl match_removable negations_removable']
  obtain model2 where save2: "doResetKeybinding ?env foo_when_a_b ?w = save ?env model2 ?w1"
    and "elements ?env model2 =
      Some (filter (\<lambda>x. command (entry_of x) \<noteq> negated_command (item_command foo_when_a_b)) ?kept)"
    by blast
  with remaining have left: "elements ?env model2 =
      Some [JObj [(''key'', JStr ''ctrl+h''), (''command'', JStr ''foo'')]]"
    by simp
  from save2 reset have "getValue model2 = after_reset_document"
    by (simp add: save_reference)
  then have "elements ?env (createModel ?env after_reset_document) = elements ?env model2"
    by (intro elements_text) (simp add: createModel_def)
  with left reset parsed negated show ?thesis by simp
qed

text \<open>
  Claim C3 as stated fails: after the reset of \<open>foo\<close> with the \<open>when\<close> \<open>a && b\<close>, the
  entry of \<open>foo\<close> without a \<open>when\<close> is still in the document.
\<close>

theorem reset_keeps_other_entries_of_the_command:
  "\<not> isDefault foo_when_a_b \<and> item_command foo_when_a_b = Some ''foo'' \<and>
   doResetKeybinding referenceCollaborators foo_when_a_b (world_with (Some three_entries_document)) =
     (Inr (), \<lparr>stored = Some after_reset_document, writeCalls = 1, liveModels = 0\<rparr>) \<and>
   entries_of (fst (json_parse referenceCollaborators after_reset_document)) =
     Some [\<lparr>key = ''ctrl+h'', command = ''foo'', when = None\<rparr>]"
  by code_simp

section \<open>Updating an entry in place\<close>

lemma applyEditsToBuffer_options [simp]:
  "formattingOptions (applyEditsToBuffer edit model) = formattingOptions model"
  by (simp add: applyEditsToBuffer_def formattingOptions_def)










end
